theory Spec2Isabelle
  imports Complex_Main "HOL-Library.Char_ord" "HOL-Library.List_Lexorder"
begin

section \<open>The Time Ledger Engine of the Google Sheets time tracker\<close>

text \<open>
  A shallow embedding of \<^verbatim>\<open>src/services/timerService.ts\<close> (class \<^verbatim>\<open>TimerService\<close>, the
  version with the Config sheet and the timezone setting) and of the interface of
  \<^verbatim>\<open>src/services/googleSheets.ts\<close> it is constructed with. Every definition names the
  source function it embeds. Promises become state passing over an explicit state, a
  rejected promise (a \<^verbatim>\<open>throw\<close>) becomes a left injection.
\<close>

subsection \<open>JavaScript strings and numbers, as far as the time strings need them\<close>

text \<open>Decimal digits: \<^verbatim>\<open>n.toString()\<close> for a natural number is \<open>digits n\<close>.\<close>

definition digitChar :: "nat \<Rightarrow> char" where
  "digitChar n = ''0123456789'' ! n"

definition isDigit :: "char \<Rightarrow> bool" where
  "isDigit c = (c \<in> set ''0123456789'')"

definition digitVal :: "char \<Rightarrow> nat" where
  "digitVal c = of_char c - 48"

fun digits :: "nat \<Rightarrow> string" where
  "digits n = (if n < 10 then [digitChar n] else digits (n div 10) @ [digitChar (n mod 10)])"

declare digits.simps [simp del]

definition parseDigits :: "string \<Rightarrow> nat" where
  "parseDigits s = foldl (\<lambda>a c. 10 * a + digitVal c) 0 s"

text \<open>
  A JavaScript number that is an integer or NaN is an \<open>int option\<close>, \<open>None\<close> being NaN.
  \<^verbatim>\<open>Number(s)\<close> on the pieces of a time string: the empty string is 0, a string of decimal
  digits is its value, and every other string is taken as NaN (signs, fractions,
  exponents, radix prefixes and surrounding white space do not occur in a time of day and
  are not modelled).
\<close>

definition js_Number :: "string \<Rightarrow> int option" where
  "js_Number s =
     (if s = [] then Some 0
      else if list_all isDigit s then Some (int (parseDigits s))
      else None)"

text \<open>\<^verbatim>\<open>s.split(c)\<close> for a separator of one character: never the empty list.\<close>

fun js_split :: "char \<Rightarrow> string \<Rightarrow> string list" where
  "js_split c [] = [[]]"
| "js_split c (x # xs) =
     (if x = c then [] # js_split c xs
      else (case js_split c xs of [] \<Rightarrow> [[x]] | p # ps \<Rightarrow> (x # p) # ps))"

text \<open>\<^verbatim>\<open>xs[i]\<close>: \<open>None\<close> is \<^verbatim>\<open>undefined\<close>, the value of a read past the end.\<close>

definition elemAt :: "'a list \<Rightarrow> nat \<Rightarrow> 'a option" where
  "elemAt xs i = (if i < length xs then Some (xs ! i) else None)"

text \<open>\<^verbatim>\<open>x.toString()\<close> of an integer or NaN, and \<^verbatim>\<open>s.padStart(n, '0')\<close>.\<close>

definition js_toString :: "int option \<Rightarrow> string" where
  "js_toString x =
     (case x of
        None \<Rightarrow> ''NaN''
      | Some n \<Rightarrow> (if n < 0 then ''-'' @ digits (nat (- n)) else digits (nat n)))"

definition padStart :: "nat \<Rightarrow> string \<Rightarrow> string" where
  "padStart n s = replicate (n - length s) CHR ''0'' @ s"

text \<open>
  \<^verbatim>\<open>Math.floor(x)\<close>, \<^verbatim>\<open>x % y\<close> and \<^verbatim>\<open>x / y\<close> on rational numbers. The remainder of
  JavaScript takes the sign of the dividend: \<open>x - y * trunc (x / y)\<close>. The doubles of the
  source are exact on the values met here: a difference of two times of day is a whole
  number of milliseconds below \<open>2 ^ 53\<close>.
\<close>

definition js_trunc :: "rat \<Rightarrow> int" where
  "js_trunc x = (if 0 \<le> x then \<lfloor>x\<rfloor> else \<lceil>x\<rceil>)"

definition js_rem :: "rat \<Rightarrow> rat \<Rightarrow> rat" where
  "js_rem x y = x - y * of_int (js_trunc (x / y))"

definition Math_floor :: "rat \<Rightarrow> int" where
  "Math_floor x = \<lfloor>x\<rfloor>"

subsection \<open>Dates\<close>

text \<open>
  A \<^verbatim>\<open>Date\<close> is its time value, the milliseconds since the epoch; the process runs in UTC
  (the container's zone), so local time is UTC. The civil date of a day number is the
  runtime's \<^verbatim>\<open>YearFromTime\<close>, \<^verbatim>\<open>MonthFromTime\<close> and \<^verbatim>\<open>DateFromTime\<close>.
\<close>

definition civil_from_days :: "int \<Rightarrow> int \<times> int \<times> int" where
  "civil_from_days z0 =
     (let z = z0 + 719468;
          era = z div 146097;
          doe = z mod 146097;
          yoe = (doe - doe div 1460 + doe div 36524 - doe div 146096) div 365;
          doy = doe - (365 * yoe + yoe div 4 - yoe div 100);
          mp = (5 * doy + 2) div 153;
          d = doy - (153 * mp + 2) div 5 + 1;
          m = (if mp < 10 then mp + 3 else mp - 9);
          y = yoe + era * 400 + (if m \<le> 2 then 1 else 0)
      in (y, m, d))"

definition yearString :: "int \<Rightarrow> string" where
  "yearString y =
     (if 0 \<le> y \<and> y \<le> 9999 then padStart 4 (digits (nat y))
      else (if y < 0 then ''-'' else ''+'') @ padStart 6 (digits (nat \<bar>y\<bar>)))"

text \<open>\<^verbatim>\<open>date.toISOString().split('T')[0]\<close>: the UTC date, \<^verbatim>\<open>YYYY-MM-DD\<close> for the years 0 to 9999.\<close>

definition isoDate :: "int \<Rightarrow> string" where
  "isoDate t =
     (case civil_from_days (t div 86400000) of
        (y, m, d) \<Rightarrow>
          yearString y @ ''-'' @ padStart 2 (digits (nat m)) @ ''-'' @ padStart 2 (digits (nat d)))"

definition secondOfDay :: "int \<Rightarrow> nat" where
  "secondOfDay t = nat ((t div 1000) mod 86400)"

text \<open>
  \<^verbatim>\<open>TimerService.formatTime12Hour\<close>: \<^verbatim>\<open>toLocaleTimeString('en-US', {hour: 'numeric',
  minute: '2-digit', second: '2-digit', hour12: true})\<close>, the form \<^verbatim>\<open>12:23:45 PM\<close> that the
  comment of \<^verbatim>\<open>parse12HourTime\<close> and the column format \<^verbatim>\<open>h:mm:ss AM/PM\<close> name, with an
  ASCII space before the marker.
\<close>

definition formatTime12Hour :: "int \<Rightarrow> string" where
  "formatTime12Hour date =
     (let secs = secondOfDay date;
          h = secs div 3600;
          h12 = (if h mod 12 = 0 then 12 else h mod 12)
      in digits h12 @ '':'' @ padStart 2 (digits ((secs div 60) mod 60)) @ '':''
           @ padStart 2 (digits (secs mod 60)) @ '' '' @ (if h < 12 then ''AM'' else ''PM''))"

text \<open>
  \<^verbatim>\<open>new Date(0, 0, 0, hour24, minutes, seconds).getTime()\<close>: year 0 is 1900 and day 0 of
  January is 31 December 1899, day \<open>-25568\<close> of the epoch; a NaN argument or a time value
  beyond \<open>8.64e15\<close> gives an invalid date, whose time value is NaN.
\<close>

definition newDate000 :: "int option \<Rightarrow> int option \<Rightarrow> int \<Rightarrow> int option" where
  "newDate000 hours minutes seconds =
     (case (hours, minutes) of
        (Some h, Some m) \<Rightarrow>
          (let t = - 25568 * 86400000 + h * 3600000 + m * 60000 + seconds * 1000
           in if \<bar>t\<bar> \<le> 8640000000000000 then Some t else None)
      | _ \<Rightarrow> None)"

text \<open>
  \<^verbatim>\<open>TimerService.parse12HourTime\<close> (lines 407-420), returning the time value of the date it
  builds. A piece that is missing (\<^verbatim>\<open>undefined\<close>) and a piece that is not a number (NaN)
  behave alike where they are used: \<^verbatim>\<open>seconds || 0\<close> is 0 for both, and the constructor
  turns both into an invalid date.
\<close>

definition parse12HourTime :: "string \<Rightarrow> int option" where
  "parse12HourTime timeString =
     (let parts = js_split CHR '' '' timeString;
          timePart = hd parts;
          period = elemAt parts 1;
          nums = map js_Number (js_split CHR '':'' timePart);
          hours = hd nums;
          minutes = Option.bind (elemAt nums 1) id;
          seconds = Option.bind (elemAt nums 2) id;
          hour24 =
            (if period = Some ''AM'' \<and> hours = Some 12 then Some 0
             else if period = Some ''PM'' \<and> hours \<noteq> Some 12 then map_option (\<lambda>h. h + 12) hours
             else hours)
      in newDate000 hour24 minutes (case seconds of None \<Rightarrow> 0 | Some s \<Rightarrow> s))"

text \<open>
  The duration of \<^verbatim>\<open>TimerService.stopTimer\<close> (lines 62-75), from the Start string of the
  open row and the End string just written.
\<close>

definition durationMs :: "string \<Rightarrow> string \<Rightarrow> int option" where
  "durationMs startTime endTimeString =
     (case (parse12HourTime endTimeString, parse12HourTime startTime) of
        (Some e, Some b) \<Rightarrow> Some (e - b)
      | _ \<Rightarrow> None)"

definition duration_of :: "string \<Rightarrow> string \<Rightarrow> string" where
  "duration_of startTime endTimeString =
     (let ms = durationMs startTime endTimeString;
          seconds = map_option (\<lambda>d. Math_floor (js_rem (of_int d / 1000) 60)) ms;
          minutes = map_option (\<lambda>d. Math_floor (js_rem (of_int d / (1000 * 60)) 60)) ms;
          hours = map_option (\<lambda>d. Math_floor (of_int d / (1000 * 60 * 60))) ms
      in padStart 2 (js_toString hours) @ '':'' @ padStart 2 (js_toString minutes) @ '':''
           @ padStart 2 (js_toString seconds))"

subsection \<open>Errors, the document store's interface and the engine's state\<close>

text \<open>
  The rejections of \<^verbatim>\<open>TimerService\<close>: the two named errors of \<^verbatim>\<open>utils/errors.ts\<close>, a
  plain \<^verbatim>\<open>Error\<close> with its message, a \<^verbatim>\<open>TypeError\<close> of the runtime (a property read on
  \<^verbatim>\<open>null\<close> or \<^verbatim>\<open>undefined\<close>), and whatever a method of \<^verbatim>\<open>GoogleSheetsService\<close> rejects with.
\<close>

datatype error =
    TimerAlreadyRunningError
  | NoActiveTimerError
  | Error string
  | TypeError
  | StoreError string

text \<open>
  The structural requests of \<^verbatim>\<open>batchUpdate\<close>, with the fields the engine fills in:
  \<open>UpdateCells rows fields sheetId rowIndex columnIndex\<close>,
  \<open>UpdateDimensionProperties sheetId dimension startIndex endIndex pixelSize fields\<close> and
  \<open>RepeatCell sheetId startColumnIndex endColumnIndex type pattern fields\<close> (a number
  format).
\<close>

datatype cellData =
    StringValue string
  | NumberValue int
  | FormulaValue string
  | BooleanValidation

datatype request =
    UpdateCells "cellData list list" string nat nat nat
  | UpdateDimensionProperties nat string nat nat nat string
  | RepeatCell nat nat nat string "string option" string

record sheetProperties =
  sheetId :: nat
  title :: string

text \<open>
  \<^verbatim>\<open>any[][] | undefined\<close>, the result of \<^verbatim>\<open>getWorksheetData\<close>: cells are the formatted
  strings the values API returns, a row can be \<^verbatim>\<open>undefined\<close> (the engine checks for it), and
  the whole result is \<^verbatim>\<open>undefined\<close> for a range without values.
\<close>

type_synonym cellValues = "string list option list"

text \<open>
  \<^verbatim>\<open>GoogleSheetsService\<close>, as the constructor of \<^verbatim>\<open>TimerService\<close> receives it: the engine
  works with any implementation (the tests pass mocks). \<open>'st\<close> is the state of the
  documents; the two reads are requests that leave it as it is, the four mutations return
  the new state; \<open>Inl\<close> is the message of a rejection.
\<close>

record 'st GoogleSheetsService =
  getWorksheets :: "string \<Rightarrow> 'st \<Rightarrow> string + string list"
  getWorksheetData :: "string \<Rightarrow> string \<Rightarrow> string \<Rightarrow> 'st \<Rightarrow> string + cellValues option"
  createWorksheet :: "string \<Rightarrow> string \<Rightarrow> 'st \<Rightarrow> (string + sheetProperties option) \<times> 'st"
  appendRow :: "string \<Rightarrow> string \<Rightarrow> string list \<Rightarrow> 'st \<Rightarrow> (string + unit) \<times> 'st"
  updateCell :: "string \<Rightarrow> string \<Rightarrow> string \<Rightarrow> string \<Rightarrow> 'st \<Rightarrow> (string + unit) \<times> 'st"
  batchUpdate :: "string \<Rightarrow> request list \<Rightarrow> 'st \<Rightarrow> (string + unit) \<times> 'st"

text \<open>The calls made on the service, in order: the trace the claims about reads and mutations speak of.\<close>

datatype call =
    GetWorksheets string
  | GetWorksheetData string string string
  | CreateWorksheet string string
  | AppendRow string string "string list"
  | UpdateCell string string string string
  | BatchUpdate string "request list"

text \<open>
  The state an operation runs in: the documents behind the service, the field
  \<^verbatim>\<open>configCache\<close> (a snapshot and its timestamp per document), the trace of calls, and the
  clock: the \<open>n\<close>-th reading of \<^verbatim>\<open>Date.now()\<close> or \<^verbatim>\<open>new Date()\<close> is \<open>clock n\<close>.
\<close>

record 'st state =
  store :: 'st
  configCache :: "string \<rightharpoonup> ((string \<rightharpoonup> string) \<times> int)"
  calls :: "call list"
  clock :: "nat \<Rightarrow> int"
  ticks :: nat

type_synonym ('st, 'a) action = "'st state \<Rightarrow> (error + 'a) \<times> 'st state"

definition resolve :: "'a \<Rightarrow> ('st, 'a) action" where
  "resolve a s = (Inr a, s)"

definition throw :: "error \<Rightarrow> ('st, 'a) action" where
  "throw e s = (Inl e, s)"

text \<open>\<open>await m f\<close>: run \<open>m\<close>, and continue with its value unless it rejected.\<close>

definition await :: "('st, 'a) action \<Rightarrow> ('a \<Rightarrow> ('st, 'b) action) \<Rightarrow> ('st, 'b) action" where
  "await m f s = (case m s of (Inl e, s') \<Rightarrow> (Inl e, s') | (Inr a, s') \<Rightarrow> f a s')"

definition tryCatch :: "('st, 'a) action \<Rightarrow> (error \<Rightarrow> ('st, 'a) action) \<Rightarrow> ('st, 'a) action" where
  "tryCatch m h s = (case m s of (Inl e, s') \<Rightarrow> h e s' | (Inr a, s') \<Rightarrow> (Inr a, s'))"

definition wrap :: "string + 'a \<Rightarrow> error + 'a" where
  "wrap r = (case r of Inl m \<Rightarrow> Inl (StoreError m) | Inr a \<Rightarrow> Inr a)"

definition query :: "call \<Rightarrow> ('st \<Rightarrow> string + 'a) \<Rightarrow> ('st, 'a) action" where
  "query c f s = (wrap (f (store s)), s\<lparr>calls := calls s @ [c]\<rparr>)"

definition mutate :: "call \<Rightarrow> ('st \<Rightarrow> (string + 'a) \<times> 'st) \<Rightarrow> ('st, 'a) action" where
  "mutate c f s =
     (case f (store s) of (r, st') \<Rightarrow> (wrap r, s\<lparr>store := st', calls := calls s @ [c]\<rparr>))"

definition Date_now :: "('st, int) action" where
  "Date_now s = (Inr (clock s (ticks s)), s\<lparr>ticks := Suc (ticks s)\<rparr>)"

text \<open>A cell or a setting in a condition: \<^verbatim>\<open>undefined\<close> and the empty string are falsy.\<close>

definition truthy :: "string option \<Rightarrow> bool" where
  "truthy c = (case c of None \<Rightarrow> False | Some v \<Rightarrow> v \<noteq> [])"

subsection \<open>Timezone\<close>

text \<open>
  \<^verbatim>\<open>TimerService.getDateInTimezone\<close> (lines 367-396). The body of its \<^verbatim>\<open>try\<close> block is the
  runtime's: \<^verbatim>\<open>toLocaleString\<close> with the zone's name, and a date built from the pieces of
  its result. The parameter \<open>zoned\<close> gives the date that block returns, and \<open>None\<close> where it
  raises (a \<^verbatim>\<open>RangeError\<close> for a name the runtime does not know, a \<^verbatim>\<open>TypeError\<close> for a
  result without the two parts).
\<close>

definition getDateInTimezone ::
  "(string \<Rightarrow> int \<Rightarrow> int option) \<Rightarrow> int \<Rightarrow> string option \<Rightarrow> int" where
  "getDateInTimezone zoned date timezone =
     (if \<not> truthy timezone \<or> timezone = Some ''UTC'' then date
      else (case zoned (the timezone) date of
              Some local \<Rightarrow> local
            | None \<Rightarrow> date))"

subsection \<open>The Config sheet and its cache\<close>

definition cacheTTL :: int where
  "cacheTTL = 5 * 60 * 1000"

definition configRequests :: "nat \<Rightarrow> request list" where
  "configRequests configSheetId =
     [UpdateCells
        [[StringValue ''Hourly Rate'', NumberValue 100],
         [StringValue ''Timezone'', StringValue ''UTC'']]
        ''userEnteredValue'' configSheetId 0 0,
      RepeatCell configSheetId 1 2 ''CURRENCY'' (Some ''$#,##0.00'') ''userEnteredFormat.numberFormat'',
      UpdateDimensionProperties configSheetId ''COLUMNS'' 0 2 120 ''pixelSize'']"

text \<open>\<^verbatim>\<open>TimerService.createConfigSheet\<close> (lines 297-350).\<close>

definition createConfigSheet :: "'st GoogleSheetsService \<Rightarrow> string \<Rightarrow> ('st, unit) action" where
  "createConfigSheet G docId =
     await (mutate (CreateWorksheet docId ''Config'') (createWorksheet G docId ''Config''))
       (\<lambda>configSheet.
          case configSheet of
            None \<Rightarrow> throw (Error ''Failed to create Config worksheet.'')
          | Some props \<Rightarrow>
              mutate (BatchUpdate docId (configRequests (sheetId props)))
                (batchUpdate G docId (configRequests (sheetId props))))"

text \<open>\<^verbatim>\<open>TimerService.ensureConfigSheetExists\<close> (lines 352-365).\<close>

definition ensureConfigSheetExists :: "'st GoogleSheetsService \<Rightarrow> string \<Rightarrow> ('st, unit) action" where
  "ensureConfigSheetExists G docId =
     tryCatch
       (await (query (GetWorksheets docId) (getWorksheets G docId))
          (\<lambda>worksheets.
             if \<not> (\<exists>name \<in> set worksheets. name = ''Config'') then createConfigSheet G docId
             else resolve ()))
       (\<lambda>error. createConfigSheet G docId)"

definition defaultConfig :: "string \<rightharpoonup> string" where
  "defaultConfig = [''Hourly Rate'' \<mapsto> ''100'', ''Timezone'' \<mapsto> ''UTC'']"

text \<open>
  The \<^verbatim>\<open>reduce\<close> of \<^verbatim>\<open>getConfig\<close> (lines 285-290): a row whose first two cells are both
  truthy assigns \<^verbatim>\<open>acc[row[0]] = row[1]\<close>; reading a cell of a row that is \<^verbatim>\<open>undefined\<close> is
  a \<^verbatim>\<open>TypeError\<close>. The accumulator is a plain object (\<^verbatim>\<open>{}\<close>), on which the assignment of
  a string to the key \<^verbatim>\<open>__proto__\<close> goes to the setter it inherits and stores no key.
\<close>

fun reduceConfig :: "cellValues \<Rightarrow> (string \<rightharpoonup> string) \<Rightarrow> error + (string \<rightharpoonup> string)" where
  "reduceConfig [] acc = Inr acc"
| "reduceConfig (None # rows) acc = Inl TypeError"
| "reduceConfig (Some row # rows) acc =
     (if truthy (elemAt row 0) \<and> truthy (elemAt row 1)
      then (if row ! 0 = ''__proto__'' then reduceConfig rows acc
            else reduceConfig rows (acc(row ! 0 \<mapsto> row ! 1)))
      else reduceConfig rows acc)"

definition cachePut :: "string \<Rightarrow> (string \<rightharpoonup> string) \<Rightarrow> ('st, string \<rightharpoonup> string) action" where
  "cachePut docId config =
     await Date_now
       (\<lambda>now s. (Inr config, s\<lparr>configCache := (configCache s)(docId \<mapsto> (config, now))\<rparr>))"

text \<open>\<^verbatim>\<open>TimerService.getConfig\<close> past the cache (lines 269-295).\<close>

definition fetchConfig :: "'st GoogleSheetsService \<Rightarrow> string \<Rightarrow> ('st, string \<rightharpoonup> string) action" where
  "fetchConfig G docId s =
     (case query (GetWorksheetData docId ''Config'' ''A1:B10'')
             (getWorksheetData G docId ''Config'' ''A1:B10'') s of
        (Inl error, s1) \<Rightarrow>
          await (createConfigSheet G docId) (\<lambda>_. cachePut docId defaultConfig) s1
      | (Inr data, s1) \<Rightarrow>
          (case data of
             None \<Rightarrow> throw (Error ''Config sheet not found or is empty.'') s1
           | Some rows \<Rightarrow>
               (case reduceConfig rows Map.empty of
                  Inl e \<Rightarrow> throw e s1
                | Inr config \<Rightarrow> cachePut docId config s1)))"

text \<open>\<^verbatim>\<open>TimerService.getConfig\<close> (lines 263-295).\<close>

definition getConfig :: "'st GoogleSheetsService \<Rightarrow> string \<Rightarrow> ('st, string \<rightharpoonup> string) action" where
  "getConfig G docId s =
     (case configCache s docId of
        None \<Rightarrow> fetchConfig G docId s
      | Some (config, timestamp) \<Rightarrow>
          await Date_now
            (\<lambda>now. if now - timestamp < cacheTTL then resolve config else fetchConfig G docId) s)"

text \<open>\<^verbatim>\<open>config['Timezone'] || 'UTC'\<close>.\<close>

definition timezoneOf :: "(string \<rightharpoonup> string) \<Rightarrow> string" where
  "timezoneOf config = (if truthy (config ''Timezone'') then the (config ''Timezone'') else ''UTC'')"

subsection \<open>The current sheet\<close>

text \<open>The test of \<^verbatim>\<open>/^\d{4}-\d{2}-\d{2}$/\<close>.\<close>

definition dateRegex :: "string \<Rightarrow> bool" where
  "dateRegex name =
     (case name of
        [y1, y2, y3, y4, h1, m1, m2, h2, d1, d2] \<Rightarrow>
          list_all isDigit [y1, y2, y3, y4, m1, m2, d1, d2] \<and> h1 = CHR ''-'' \<and> h2 = CHR ''-''
      | _ \<Rightarrow> False)"

text \<open>
  The condition of \<^verbatim>\<open>getCurrentSheet\<close> on the value of cell A1 (line 117):
  \<^verbatim>\<open>!invoicedData || !invoicedData[0] || invoicedData[0][0] !== 'TRUE'\<close>.
\<close>

definition notInvoiced :: "cellValues option \<Rightarrow> bool" where
  "notInvoiced invoicedData =
     (case invoicedData of
        None \<Rightarrow> True
      | Some rows \<Rightarrow>
          (case elemAt rows 0 of
             None \<Rightarrow> True
           | Some None \<Rightarrow> True
           | Some (Some row) \<Rightarrow> elemAt row 0 \<noteq> Some ''TRUE''))"

text \<open>The loop of \<^verbatim>\<open>getCurrentSheet\<close> (lines 115-122).\<close>

fun firstNotInvoiced ::
  "'st GoogleSheetsService \<Rightarrow> string \<Rightarrow> string list \<Rightarrow> ('st, string option) action" where
  "firstNotInvoiced G docId [] s = (Inr None, s)"
| "firstNotInvoiced G docId (sheetName # rest) s =
     (case query (GetWorksheetData docId sheetName ''A1'')
             (getWorksheetData G docId sheetName ''A1'') s of
        (Inl e, s') \<Rightarrow> (Inl e, s')
      | (Inr invoicedData, s') \<Rightarrow>
          if notInvoiced invoicedData then (Inr (Some sheetName), s')
          else firstNotInvoiced G docId rest s')"

text \<open>
  \<^verbatim>\<open>TimerService.getCurrentSheet\<close> (lines 108-123). \<^verbatim>\<open>sort((a, b) => b.localeCompare(a))\<close>
  on names of the date pattern, which all have their hyphens in the same places, is the
  descending order of their digits.
\<close>

definition getCurrentSheet :: "'st GoogleSheetsService \<Rightarrow> string \<Rightarrow> ('st, string option) action" where
  "getCurrentSheet G docId =
     await (query (GetWorksheets docId) (getWorksheets G docId))
       (\<lambda>worksheets. firstNotInvoiced G docId (rev (sort (filter dateRegex worksheets))))"

subsection \<open>The timer's state\<close>

text \<open>\<^verbatim>\<open>TimerService.isTimerRunning\<close> (lines 245-261).\<close>

definition isTimerRunning :: "'st GoogleSheetsService \<Rightarrow> string \<Rightarrow> string \<Rightarrow> ('st, bool) action" where
  "isTimerRunning G docId worksheetName =
     await (query (GetWorksheetData docId worksheetName ''A6:C'')
              (getWorksheetData G docId worksheetName ''A6:C''))
       (\<lambda>data.
          case data of
            None \<Rightarrow> resolve False
          | Some rows \<Rightarrow>
              if length rows = 0 then resolve False
              else (case rows ! (length rows - 1) of
                      None \<Rightarrow> resolve False
                    | Some lastRow \<Rightarrow>
                        (let hasStartTime = truthy (elemAt lastRow 1);
                             hasEndTime = truthy (elemAt lastRow 2)
                         in resolve (hasStartTime \<and> \<not> hasEndTime))))"

text \<open>\<^verbatim>\<open>TimerService.findActiveTimerRow\<close> (lines 84-106).\<close>

definition findActiveTimerRow ::
  "'st GoogleSheetsService \<Rightarrow> string \<Rightarrow> string \<Rightarrow> ('st, (string list \<times> nat) option) action" where
  "findActiveTimerRow G docId worksheetName =
     await (query (GetWorksheetData docId worksheetName ''A6:C'')
              (getWorksheetData G docId worksheetName ''A6:C''))
       (\<lambda>data.
          case data of
            None \<Rightarrow> resolve None
          | Some rows \<Rightarrow>
              if length rows = 0 then resolve None
              else (let lastRowIndex = length rows - 1
                    in case rows ! lastRowIndex of
                         None \<Rightarrow> resolve None
                       | Some lastRow \<Rightarrow>
                           (let hasStartTime = truthy (elemAt lastRow 1);
                                hasEndTime = truthy (elemAt lastRow 2)
                            in if hasStartTime \<and> \<not> hasEndTime
                               then resolve (Some (lastRow, lastRowIndex + 6))
                               else resolve None)))"

subsection \<open>Provisioning a period sheet\<close>

text \<open>The \<^verbatim>\<open>requests\<close> of \<^verbatim>\<open>createNewTimeSheet\<close> (lines 142-239).\<close>

definition timeSheetRequests :: "nat \<Rightarrow> request list" where
  \<open>timeSheetRequests newSheetId =
     [UpdateCells [[BooleanValidation]] ''dataValidation'' newSheetId 0 0,
      UpdateCells
        [[StringValue ''Total Hours:'', FormulaValue ''=SUM(D6:D)''],
         [StringValue ''Total Billable:'', FormulaValue ''=SUM(E6:E)'']]
        ''userEnteredValue'' newSheetId 1 0,
      UpdateCells
        [[StringValue ''Date'', StringValue ''Start'', StringValue ''End'',
          StringValue ''Total Time'', StringValue ''Billable Amount'']]
        ''userEnteredValue'' newSheetId 4 0,
      UpdateDimensionProperties newSheetId ''COLUMNS'' 0 5 120 ''pixelSize'',
      RepeatCell newSheetId 0 1 ''DATE'' None ''userEnteredFormat.numberFormat'',
      RepeatCell newSheetId 1 3 ''TIME'' (Some ''h:mm:ss AM/PM'') ''userEnteredFormat.numberFormat'',
      RepeatCell newSheetId 3 4 ''TIME'' (Some ''[h]:mm:ss'') ''userEnteredFormat.numberFormat'',
      RepeatCell newSheetId 4 5 ''CURRENCY'' (Some ''$#,##0.00'') ''userEnteredFormat.numberFormat'',
      UpdateCells
        [[FormulaValue ''=IF(C6<>"", C6-B6, "")'',
          FormulaValue ''=IF(D6<>"", D6*24*Config!$B$1, "")'']]
        ''userEnteredValue'' newSheetId 5 3]\<close>

text \<open>\<^verbatim>\<open>TimerService.createNewTimeSheet\<close> (lines 125-243).\<close>

definition createNewTimeSheet ::
  "'st GoogleSheetsService \<Rightarrow> (string \<Rightarrow> int \<Rightarrow> int option) \<Rightarrow> string \<Rightarrow> string option
     \<Rightarrow> ('st, string) action" where
  "createNewTimeSheet G zoned docId timezone =
     await Date_now
       (\<lambda>d. let now = getDateInTimezone zoned d timezone;
                sheetName = isoDate now
            in if sheetName = [] then throw (Error ''Failed to generate sheet name.'')
               else
                 await (ensureConfigSheetExists G docId)
                   (\<lambda>_. await (mutate (CreateWorksheet docId sheetName)
                                  (createWorksheet G docId sheetName))
                      (\<lambda>newSheet.
                         case newSheet of
                           None \<Rightarrow> throw (Error ''Failed to create new sheet.'')
                         | Some props \<Rightarrow>
                             await (mutate (BatchUpdate docId (timeSheetRequests (sheetId props)))
                                      (batchUpdate G docId (timeSheetRequests (sheetId props))))
                               (\<lambda>_. resolve sheetName))))"

subsection \<open>Start and stop\<close>

record timerResult =
  sheet :: string

record startResult = timerResult +
  date :: string
  start :: string

record stopResult = timerResult +
  end' :: int
  duration :: string

text \<open>
  \<^verbatim>\<open>TimerService.startTimer\<close> (lines 13-39). \<^verbatim>\<open>!currentSheet\<close> holds for \<^verbatim>\<open>null\<close> and for
  the empty name.
\<close>

definition startTimer ::
  "'st GoogleSheetsService \<Rightarrow> (string \<Rightarrow> int \<Rightarrow> int option) \<Rightarrow> string \<Rightarrow> string option
     \<Rightarrow> ('st, startResult) action" where
  "startTimer G zoned docId description =
     await (getConfig G docId)
       (\<lambda>config. let timezone = timezoneOf config in
          await (getCurrentSheet G docId)
            (\<lambda>current.
               await (if \<not> truthy current then createNewTimeSheet G zoned docId (Some timezone)
                      else resolve (the current))
                 (\<lambda>currentSheet.
                    await (isTimerRunning G docId currentSheet)
                      (\<lambda>timerRunning.
                         if timerRunning then throw TimerAlreadyRunningError
                         else
                           await Date_now
                             (\<lambda>d. let now = getDateInTimezone zoned d (Some timezone);
                                      date = isoDate now;
                                      time = formatTime12Hour now;
                                      row = [date, time]
                                  in await (mutate (AppendRow docId currentSheet row)
                                              (appendRow G docId currentSheet row))
                                       (\<lambda>_. resolve \<lparr>sheet = currentSheet, date = date, start = time\<rparr>))))))"

text \<open>
  \<^verbatim>\<open>TimerService.stopTimer\<close> (lines 41-82). \<^verbatim>\<open>parse12HourTime\<close> splits its argument, a
  \<^verbatim>\<open>TypeError\<close> on \<^verbatim>\<open>undefined\<close>.
\<close>

definition stopTimer ::
  "'st GoogleSheetsService \<Rightarrow> (string \<Rightarrow> int \<Rightarrow> int option) \<Rightarrow> string \<Rightarrow> int option
     \<Rightarrow> ('st, stopResult) action" where
  "stopTimer G zoned docId endTime =
     await (getConfig G docId)
       (\<lambda>config. let timezone = timezoneOf config in
          await (getCurrentSheet G docId)
            (\<lambda>currentSheet.
               if \<not> truthy currentSheet then throw NoActiveTimerError
               else
                 await (findActiveTimerRow G docId (the currentSheet))
                   (\<lambda>activeTimer.
                      case activeTimer of
                        None \<Rightarrow> throw NoActiveTimerError
                      | Some (row, index) \<Rightarrow>
                          await (case endTime of Some e \<Rightarrow> resolve e | None \<Rightarrow> Date_now)
                            (\<lambda>actualEndTime.
                               let endTimeInTimezone =
                                     getDateInTimezone zoned actualEndTime (Some timezone);
                                   endTimeString = formatTime12Hour endTimeInTimezone;
                                   cell = ''C'' @ digits index
                               in await (mutate (UpdateCell docId (the currentSheet) cell endTimeString)
                                           (updateCell G docId (the currentSheet) cell endTimeString))
                                    (\<lambda>_. case elemAt row 1 of
                                            None \<Rightarrow> throw TypeError
                                          | Some startTime \<Rightarrow>
                                              resolve
                                                \<lparr>sheet = the currentSheet, end' = endTimeInTimezone,
                                                 duration = duration_of startTime endTimeString\<rparr>)))))"

subsection \<open>The mocks of the test file\<close>

text \<open>
  \<^verbatim>\<open>mockGoogleSheetsService\<close> of \<^verbatim>\<open>tests/timerService.test.ts\<close>: one sheet
  \<^verbatim>\<open>2025-01-01\<close>, no values in any range, every mutation accepted; and the variant
  \<^verbatim>\<open>mockGoogleSheetsServiceWithRunningTimer\<close>, whose every range holds one row with a Start.
\<close>

definition mockGoogleSheetsService :: "unit GoogleSheetsService" where
  "mockGoogleSheetsService =
     \<lparr>getWorksheets = (\<lambda>sheetId st. Inr [''2025-01-01'']),
      getWorksheetData = (\<lambda>sheetId worksheetName range st. Inr (Some [])),
      createWorksheet = (\<lambda>sheetId title st. (Inr (Some \<lparr>sheetId = 1, title = title\<rparr>), st)),
      appendRow = (\<lambda>sheetId worksheetName values st. (Inr (), st)),
      updateCell = (\<lambda>sheetId worksheetName cell v st. (Inr (), st)),
      batchUpdate = (\<lambda>sheetId requests st. (Inr (), st))\<rparr>"

definition mockGoogleSheetsServiceWithRunningTimer :: "unit GoogleSheetsService" where
  "mockGoogleSheetsServiceWithRunningTimer =
     mockGoogleSheetsService
       \<lparr>getWorksheetData :=
          (\<lambda>sheetId worksheetName range st. Inr (Some [Some [''2025-01-01'', ''09:00:00'']]))\<rparr>"

text \<open>A fresh \<^verbatim>\<open>TimerService\<close> over a service in state \<open>st\<close>, with a clock.\<close>

definition newTimerService :: "'st \<Rightarrow> (nat \<Rightarrow> int) \<Rightarrow> 'st state" where
  "newTimerService st c = \<lparr>store = st, configCache = Map.empty, calls = [], clock = c, ticks = 0\<rparr>"

subsection \<open>A model of the documents behind the service\<close>

text \<open>
  \<^verbatim>\<open>googleSheets.ts\<close> forwards every method to the Sheets API, which is outside the
  repository. The model below is that API on what the engine can observe, as sections 3
  and 6 of the specification describe the store: a document is a list of sheet titles and,
  per title, a grid of displayed cell values (a list of rows, row 1 first; the empty string
  is an empty cell). A sheet's numeric identifier is its position in the list of titles
  (sheets are never deleted).
\<close>

record spreadsheet =
  titles :: "string list"
  cells :: "string \<Rightarrow> string list list"

type_synonym documents = "string \<rightharpoonup> spreadsheet"

text \<open>
  \<^verbatim>\<open>spreadsheets.values.get\<close>: the rows of the range, without trailing empty cells and
  trailing empty rows, and no \<^verbatim>\<open>values\<close> at all for a range that is empty. The engine reads
  three ranges; a range is its first row, its number of rows when bounded, its first column
  and its number of columns.
\<close>

definition trimCells :: "string list \<Rightarrow> string list" where
  "trimCells row = rev (dropWhile (\<lambda>c. c = []) (rev row))"

definition trimRows :: "string list list \<Rightarrow> string list list" where
  "trimRows rows = rev (dropWhile (\<lambda>r. r = []) (rev rows))"

definition rangeOf :: "string \<Rightarrow> (nat \<times> nat option \<times> nat \<times> nat) option" where
  "rangeOf a1 =
     (if a1 = ''A1'' then Some (0, Some 1, 0, 1)
      else if a1 = ''A6:C'' then Some (5, None, 0, 3)
      else if a1 = ''A1:B10'' then Some (0, Some 10, 0, 2)
      else None)"

definition valuesIn :: "nat \<times> nat option \<times> nat \<times> nat \<Rightarrow> string list list \<Rightarrow> cellValues option" where
  "valuesIn box grid =
     (case box of
        (firstRow, rowCount, firstColumn, columnCount) \<Rightarrow>
          (let below = drop firstRow grid;
               rows = (case rowCount of None \<Rightarrow> below | Some n \<Rightarrow> take n below);
               vs = trimRows (map (\<lambda>row. trimCells (take columnCount (drop firstColumn row))) rows)
           in if vs = [] then None else Some (map Some vs)))"

text \<open>\<^verbatim>\<open>GoogleSheetsService.getWorksheets\<close> and \<^verbatim>\<open>getWorksheetData\<close>.\<close>

definition sheets_getWorksheets :: "string \<Rightarrow> documents \<Rightarrow> string + string list" where
  "sheets_getWorksheets docId docs =
     (case docs docId of
        None \<Rightarrow> Inl ''Requested entity was not found.''
      | Some doc \<Rightarrow> Inr (titles doc))"

definition sheets_getWorksheetData ::
  "string \<Rightarrow> string \<Rightarrow> string \<Rightarrow> documents \<Rightarrow> string + cellValues option" where
  "sheets_getWorksheetData docId worksheetName a1 docs =
     (case docs docId of
        None \<Rightarrow> Inl ''Requested entity was not found.''
      | Some doc \<Rightarrow>
          if worksheetName \<notin> set (titles doc) then Inl ''Unable to parse range''
          else (case rangeOf a1 of
                  None \<Rightarrow> Inl ''Unable to parse range''
                | Some box \<Rightarrow> Inr (valuesIn box (cells doc worksheetName))))"

text \<open>\<^verbatim>\<open>GoogleSheetsService.createWorksheet\<close>: \<^verbatim>\<open>addSheet\<close> refuses a title that exists.\<close>

definition sheets_createWorksheet ::
  "string \<Rightarrow> string \<Rightarrow> documents \<Rightarrow> (string + sheetProperties option) \<times> documents" where
  "sheets_createWorksheet docId t docs =
     (case docs docId of
        None \<Rightarrow> (Inl ''Requested entity was not found.'', docs)
      | Some doc \<Rightarrow>
          if t \<in> set (titles doc) then (Inl ''A sheet with this name already exists'', docs)
          else (Inr (Some \<lparr>sheetId = length (titles doc), title = t\<rparr>),
                docs(docId \<mapsto> doc\<lparr>titles := titles doc @ [t], cells := (cells doc)(t := [])\<rparr>)))"

text \<open>
  \<^verbatim>\<open>GoogleSheetsService.appendRow\<close> (\<^verbatim>\<open>values.append\<close> at \<^verbatim>\<open>A6\<close>, ``always append after
  static section (row 6)''): the row goes below the last row of the grid, at row 6 at the
  earliest. The values are kept as entered: the columns are formatted as the engine writes
  them.
\<close>

definition appendGrid :: "string list list \<Rightarrow> string list \<Rightarrow> string list list" where
  "appendGrid grid vs = grid @ replicate (5 - length grid) [] @ [vs]"

definition sheets_appendRow ::
  "string \<Rightarrow> string \<Rightarrow> string list \<Rightarrow> documents \<Rightarrow> (string + unit) \<times> documents" where
  "sheets_appendRow docId worksheetName vs docs =
     (case docs docId of
        None \<Rightarrow> (Inl ''Requested entity was not found.'', docs)
      | Some doc \<Rightarrow>
          if worksheetName \<notin> set (titles doc) then (Inl ''Unable to parse range'', docs)
          else (Inr (),
                docs(docId \<mapsto> doc\<lparr>cells := (cells doc)
                       (worksheetName := appendGrid (cells doc worksheetName) vs)\<rparr>)))"

text \<open>
  \<^verbatim>\<open>GoogleSheetsService.updateCell\<close>: one cell, addressed by a column letter and a row
  number.
\<close>

definition setCell :: "string list list \<Rightarrow> nat \<Rightarrow> nat \<Rightarrow> string \<Rightarrow> string list list" where
  "setCell grid r c v =
     (let g = grid @ replicate (Suc r - length grid) [];
          row = g ! r
      in g[r := (row @ replicate (Suc c - length row) [])[c := v]])"

definition cellAddress :: "string \<Rightarrow> (nat \<times> nat) option" where
  "cellAddress cell =
     (case cell of
        [] \<Rightarrow> None
      | letter # number \<Rightarrow>
          if letter \<in> set ''ABCDEFGHIJKLMNOPQRSTUVWXYZ'' \<and> number \<noteq> [] \<and> list_all isDigit number
             \<and> 0 < parseDigits number
          then Some (parseDigits number - 1, of_char letter - 65)
          else None)"

definition sheets_updateCell ::
  "string \<Rightarrow> string \<Rightarrow> string \<Rightarrow> string \<Rightarrow> documents \<Rightarrow> (string + unit) \<times> documents" where
  "sheets_updateCell docId worksheetName cell v docs =
     (case docs docId of
        None \<Rightarrow> (Inl ''Requested entity was not found.'', docs)
      | Some doc \<Rightarrow>
          if worksheetName \<notin> set (titles doc) then (Inl ''Unable to parse range'', docs)
          else (case cellAddress cell of
                  None \<Rightarrow> (Inl ''Unable to parse range'', docs)
                | Some (r, c) \<Rightarrow>
                    (Inr (),
                     docs(docId \<mapsto> doc\<lparr>cells := (cells doc)
                            (worksheetName := setCell (cells doc worksheetName) r c v)\<rparr>))))"

text \<open>
  \<^verbatim>\<open>GoogleSheetsService.batchUpdate\<close>: all requests or none; a request for a sheet that does
  not exist rejects the batch. Of a request the model keeps what a later read of values
  can return: the strings and numbers that \<^verbatim>\<open>updateCells\<close> enters. The results of formulas
  (the engine never reads a cell it put a formula in), validations, formats and widths
  stay in the trace only.
\<close>

fun writeCells :: "string list list \<Rightarrow> nat \<Rightarrow> nat \<Rightarrow> cellData list \<Rightarrow> string list list" where
  "writeCells grid r c [] = grid"
| "writeCells grid r c (StringValue v # rest) = writeCells (setCell grid r c v) r (Suc c) rest"
| "writeCells grid r c (NumberValue n # rest) =
     writeCells (setCell grid r c (js_toString (Some n))) r (Suc c) rest"
| "writeCells grid r c (FormulaValue f # rest) = writeCells grid r (Suc c) rest"
| "writeCells grid r c (BooleanValidation # rest) = writeCells grid r (Suc c) rest"

fun writeRows :: "string list list \<Rightarrow> nat \<Rightarrow> nat \<Rightarrow> cellData list list \<Rightarrow> string list list" where
  "writeRows grid r c [] = grid"
| "writeRows grid r c (row # rest) = writeRows (writeCells grid r c row) (Suc r) c rest"

definition requestSheet :: "request \<Rightarrow> nat" where
  "requestSheet req =
     (case req of
        UpdateCells rows fieldMask sid rowIndex columnIndex \<Rightarrow> sid
      | UpdateDimensionProperties sid dimension startIndex endIndex pixelSize fieldMask \<Rightarrow> sid
      | RepeatCell sid startColumnIndex endColumnIndex type pattern fieldMask \<Rightarrow> sid)"

definition requestOnGrid :: "request \<Rightarrow> string list list \<Rightarrow> string list list" where
  "requestOnGrid req grid =
     (case req of
        UpdateCells rows fieldMask sid rowIndex columnIndex \<Rightarrow>
          if fieldMask = ''userEnteredValue'' then writeRows grid rowIndex columnIndex rows else grid
      | _ \<Rightarrow> grid)"

definition applyRequest :: "spreadsheet \<Rightarrow> request \<Rightarrow> spreadsheet" where
  "applyRequest doc req =
     (let name = titles doc ! requestSheet req
      in doc\<lparr>cells := (cells doc)(name := requestOnGrid req (cells doc name))\<rparr>)"

definition sheets_batchUpdate ::
  "string \<Rightarrow> request list \<Rightarrow> documents \<Rightarrow> (string + unit) \<times> documents" where
  "sheets_batchUpdate docId requests docs =
     (case docs docId of
        None \<Rightarrow> (Inl ''Requested entity was not found.'', docs)
      | Some doc \<Rightarrow>
          if \<exists>req \<in> set requests. length (titles doc) \<le> requestSheet req
          then (Inl ''Invalid requests: no sheet with this id'', docs)
          else (Inr (), docs(docId \<mapsto> foldl applyRequest doc requests)))"

definition googleSheetsService :: "documents GoogleSheetsService" where
  "googleSheetsService =
     \<lparr>getWorksheets = sheets_getWorksheets,
      getWorksheetData = sheets_getWorksheetData,
      createWorksheet = sheets_createWorksheet,
      appendRow = sheets_appendRow,
      updateCell = sheets_updateCell,
      batchUpdate = sheets_batchUpdate\<rparr>"

section \<open>Notions of the specification\<close>

text \<open>
  A component on two digits, and a number of seconds below a day as \<^verbatim>\<open>HH:MM:SS\<close>: the form
  of the duration, and the 24-hour form of a time of day.
\<close>

definition twoDigits :: "nat \<Rightarrow> string" where
  "twoDigits k = [digitChar (k div 10), digitChar (k mod 10)]"

definition hhmmss :: "nat \<Rightarrow> string" where
  "hhmmss n = twoDigits (n div 3600) @ '':'' @ twoDigits ((n div 60) mod 60) @ '':'' @ twoDigits (n mod 60)"

text \<open>The time value of \<^verbatim>\<open>new Date(0, 0, 0, h, m, s)\<close> at a second of that day.\<close>

definition timeValue :: "nat \<Rightarrow> int" where
  "timeValue secs = - 25568 * 86400000 + int secs * 1000"

text \<open>
  An open row has a non-empty Start (column B) and an empty End (column C); the timer runs
  when the last data row exists and is open.
\<close>

definition openRow :: "string list \<Rightarrow> bool" where
  "openRow row = (truthy (elemAt row 1) \<and> \<not> truthy (elemAt row 2))"

definition lastRowOpen :: "cellValues option \<Rightarrow> bool" where
  "lastRowOpen data =
     (case data of
        None \<Rightarrow> False
      | Some rows \<Rightarrow> rows \<noteq> [] \<and> (case last rows of None \<Rightarrow> False | Some row \<Rightarrow> openRow row))"

text \<open>The instant a stop ends at: the caller's, or the clock's next reading.\<close>

definition stopInstant :: "int option \<Rightarrow> 'st state \<Rightarrow> int" where
  "stopInstant endTime s = (case endTime of Some e \<Rightarrow> e | None \<Rightarrow> clock s (ticks s))"

text \<open>
  The trace between two states. A read lists the sheets or reads a range; a row write is
  \<^verbatim>\<open>appendRow\<close> or \<^verbatim>\<open>updateCell\<close>. \<open>noRowWrite s s'\<close>: from \<open>s\<close> to \<open>s'\<close> calls were only
  added, none of them a row write, and when all of them were reads the documents are as
  they were. An action is quiet when every run of it is such.
\<close>

definition isRead :: "call \<Rightarrow> bool" where
  "isRead c = (case c of GetWorksheets _ \<Rightarrow> True | GetWorksheetData _ _ _ \<Rightarrow> True | _ \<Rightarrow> False)"

definition isRowWrite :: "call \<Rightarrow> bool" where
  "isRowWrite c = (case c of AppendRow _ _ _ \<Rightarrow> True | UpdateCell _ _ _ _ \<Rightarrow> True | _ \<Rightarrow> False)"

definition noRowWrite :: "'st state \<Rightarrow> 'st state \<Rightarrow> bool" where
  "noRowWrite s s' =
     (\<exists>issued. calls s' = calls s @ issued
        \<and> list_all (\<lambda>c. \<not> isRowWrite c) issued
        \<and> (list_all isRead issued \<longrightarrow> store s' = store s))"

definition quiet :: "('st, 'a) action \<Rightarrow> bool" where
  "quiet m = (\<forall>s. noRowWrite s (snd (m s)))"

text \<open>
  A cache miss: no snapshot for the document, or one whose age at the next reading of the
  clock is not below the time to live.
\<close>

definition cacheMiss :: "'st state \<Rightarrow> string \<Rightarrow> bool" where
  "cacheMiss s docId =
     (case configCache s docId of
        None \<Rightarrow> True
      | Some (config, timestamp) \<Rightarrow> cacheTTL \<le> clock s (ticks s) - timestamp)"



text \<open>The value of cell A1 in the answer to its read, when there is one.\<close>

definition cellA1 :: "cellValues option \<Rightarrow> string option" where
  "cellA1 v = (case v of Some (Some (c # _) # _) \<Rightarrow> Some c | _ \<Rightarrow> None)"

text \<open>An action fails quietly with an error when every run that ends in the error wrote no row.\<close>

definition failsQuietly :: "error \<Rightarrow> ('st, 'a) action \<Rightarrow> bool" where
  "failsQuietly e m = (\<forall>s. fst (m s) = Inl e \<longrightarrow> noRowWrite s (snd (m s)))"

text \<open>
  A run from \<open>s\<close> to \<open>s'\<close> has only read when the calls it added are all reads and the documents
  are as they were. The configuration is available without provisioning when the cache holds
  a fresh snapshot or the store answers the read of the Config sheet.
\<close>

definition readsOnly :: "'st state \<Rightarrow> 'st state \<Rightarrow> bool" where
  "readsOnly s s' =
     (\<exists>issued. calls s' = calls s @ issued \<and> list_all isRead issued \<and> store s' = store s)"

definition answered :: "string + 'a \<Rightarrow> bool" where
  "answered r = (case r of Inl _ \<Rightarrow> False | Inr _ \<Rightarrow> True)"

definition configAvailable :: "'st GoogleSheetsService \<Rightarrow> string \<Rightarrow> 'st state \<Rightarrow> bool" where
  "configAvailable G docId s =
     (\<not> cacheMiss s docId \<or> answered (getWorksheetData G docId ''Config'' ''A1:B10'' (store s)))"

text \<open>
  Documents \<open>docs'\<close> extend documents \<open>docs\<close> within the sheets \<open>new\<close>, at one document: no
  sheet is lost, every additional sheet is one of \<open>new\<close>, and every sheet outside \<open>new\<close> has
  the cells it had. An action is framed by \<open>new\<close> when every run of it changes the documents
  in this way only.
\<close>

definition frame :: "string set \<Rightarrow> string \<Rightarrow> documents \<Rightarrow> documents \<Rightarrow> bool" where
  "frame new docId docs docs' =
     (case docs docId of
        None \<Rightarrow> docs' docId = None
      | Some doc \<Rightarrow>
          (case docs' docId of
             None \<Rightarrow> False
           | Some doc' \<Rightarrow>
               set (titles doc) \<subseteq> set (titles doc')
               \<and> set (titles doc') \<subseteq> set (titles doc) \<union> new
               \<and> (\<forall>n. n \<notin> new \<longrightarrow> cells doc' n = cells doc n)))"

definition framed :: "string set \<Rightarrow> string \<Rightarrow> (documents, 'a) action \<Rightarrow> bool" where
  "framed new docId m = (\<forall>s. frame new docId (store s) (store (snd (m s))))"



text \<open>
  Two documents that lack the Config sheet (as the version of the service before the
  Config sheet left them): one whose sheet has an open row in row 6, one whose sheet has no
  entry.
\<close>

definition openDocument :: documents where
  "openDocument =
     [''doc'' \<mapsto> \<lparr>titles = [''2025-01-01''],
                  cells = (\<lambda>name. replicate 5 [] @ [[''2025-01-01'', ''9:00:00 AM'']])\<rparr>]"

definition idleDocument :: documents where
  "idleDocument = [''doc'' \<mapsto> \<lparr>titles = [''2025-01-01''], cells = (\<lambda>name. [])\<rparr>]"

section \<open>Properties\<close>

subsection \<open>Time strings\<close>

lemma lt10_cases: "k < 10 \<Longrightarrow> k \<in> {0, 1, 2, 3, 4, 5, 6, 7, 8, 9::nat}"
  by auto

lemma digitVal_digitChar: "k < 10 \<Longrightarrow> digitVal (digitChar k) = k"
  using lt10_cases [of k] by (auto simp: digitVal_def digitChar_def)

lemma isDigit_digitChar: "k < 10 \<Longrightarrow> isDigit (digitChar k)"
  using lt10_cases [of k] by (auto simp: isDigit_def digitChar_def)

lemma isDigit_not_sep: "isDigit c \<Longrightarrow> c \<noteq> CHR '':'' \<and> c \<noteq> CHR '' ''"
  by (auto simp: isDigit_def)

lemma digits_all: "list_all isDigit (digits n)"
  by (induction n rule: digits.induct) (subst digits.simps, auto simp: isDigit_digitChar)

lemma digits_ne: "digits n \<noteq> []"
  by (subst digits.simps) simp

lemma parseDigits_snoc: "parseDigits (s @ [c]) = 10 * parseDigits s + digitVal c"
  by (simp add: parseDigits_def)

lemma parseDigits_digits: "parseDigits (digits n) = n"
proof (induction n rule: digits.induct)
  case (1 n)
  show ?case
  proof (cases "n < 10")
    case True
    then show ?thesis by (subst digits.simps) (simp add: parseDigits_def digitVal_digitChar)
  next
    case False
    then show ?thesis using 1
      by (subst digits.simps) (simp add: parseDigits_snoc digitVal_digitChar)
  qed
qed

lemma padStart2_digits: "k < 100 \<Longrightarrow> padStart 2 (digits k) = twoDigits k"
proof (cases "k < 10")
  case True
  then show ?thesis
    by (subst digits.simps) (simp add: padStart_def twoDigits_def digitChar_def)
next
  case False
  assume "k < 100"
  with False have "k div 10 < 10" by simp
  with False show ?thesis
    by (subst digits.simps, subst digits.simps) (simp add: padStart_def twoDigits_def)
qed

lemma twoDigits_all: "k < 100 \<Longrightarrow> list_all isDigit (twoDigits k)"
  by (simp add: twoDigits_def isDigit_digitChar)

lemma parseDigits_twoDigits: "k < 100 \<Longrightarrow> parseDigits (twoDigits k) = k"
  by (simp add: twoDigits_def parseDigits_def digitVal_digitChar)

lemma js_Number_digits: "js_Number (digits n) = Some (int n)"
  by (simp add: js_Number_def digits_ne digits_all parseDigits_digits)

lemma js_Number_twoDigits: "k < 100 \<Longrightarrow> js_Number (twoDigits k) = Some (int k)"
  by (simp add: js_Number_def twoDigits_all parseDigits_twoDigits) (simp add: twoDigits_def)

lemma js_split_none: "c \<notin> set s \<Longrightarrow> js_split c s = [s]"
  by (induction s) auto

lemma js_split_append: "c \<notin> set a \<Longrightarrow> js_split c (a @ c # b) = a # js_split c b"
  by (induction a) auto

lemma digits_no_sep: "CHR '':'' \<notin> set (digits n) \<and> CHR '' '' \<notin> set (digits n)"
  using digits_all [of n] isDigit_not_sep by (auto simp: list_all_iff)

lemma twoDigits_no_sep: "k < 100 \<Longrightarrow> CHR '':'' \<notin> set (twoDigits k) \<and> CHR '' '' \<notin> set (twoDigits k)"
  using twoDigits_all [of k] isDigit_not_sep by (auto simp: list_all_iff)

lemma parse12HourTime_pieces:
  assumes "js_split CHR '' '' t = tp # rest" and "js_split CHR '':'' tp = [hh, mm, ss]"
  shows "parse12HourTime t =
         newDate000
           (if elemAt (tp # rest) 1 = Some ''AM'' \<and> js_Number hh = Some 12 then Some 0
            else if elemAt (tp # rest) 1 = Some ''PM'' \<and> js_Number hh \<noteq> Some 12
              then map_option (\<lambda>h. h + 12) (js_Number hh)
            else js_Number hh)
           (js_Number mm) (case js_Number ss of None \<Rightarrow> 0 | Some s \<Rightarrow> s)"
  by (simp add: parse12HourTime_def assms elemAt_def Let_def)

lemma split_time:
  assumes "CHR '':'' \<notin> set hh" "CHR '' '' \<notin> set hh" "m < 100" "s < 100"
  shows "js_split CHR '':'' (hh @ CHR '':'' # twoDigits m @ CHR '':'' # twoDigits s) = [hh, twoDigits m, twoDigits s]"
    and "CHR '' '' \<notin> set (hh @ CHR '':'' # twoDigits m @ CHR '':'' # twoDigits s)"
  using assms twoDigits_no_sep [of m] twoDigits_no_sep [of s]
  by (simp_all add: js_split_append js_split_none)

lemma parse_time_plain:
  assumes "CHR '':'' \<notin> set hh" "CHR '' '' \<notin> set hh" "m < 60" "s < 60" "js_Number hh = Some h"
  shows "parse12HourTime (hh @ CHR '':'' # twoDigits m @ CHR '':'' # twoDigits s) =
         newDate000 (Some h) (Some (int m)) (int s)"
proof -
  let ?t = "hh @ CHR '':'' # twoDigits m @ CHR '':'' # twoDigits s"
  have ms: "m < 100" "s < 100" using assms by simp_all
  have 1: "js_split CHR '' '' ?t = ?t # []"
    using split_time(2) [OF assms(1,2) ms] by (rule js_split_none)
  show ?thesis
    by (simp add: parse12HourTime_pieces [OF 1 split_time(1) [OF assms(1,2) ms]]
          elemAt_def js_Number_twoDigits ms assms(5))
qed

lemma parse_time_marked:
  assumes "CHR '':'' \<notin> set hh" "CHR '' '' \<notin> set hh" "m < 60" "s < 60" "js_Number hh = Some h"
    and "CHR '' '' \<notin> set p"
  shows "parse12HourTime (hh @ CHR '':'' # twoDigits m @ CHR '':'' # twoDigits s @ CHR '' '' # p) =
         newDate000 (if p = ''AM'' \<and> h = 12 then Some 0 else if p = ''PM'' \<and> h \<noteq> 12 then Some (h + 12) else Some h)
            (Some (int m)) (int s)"
proof -
  let ?t = "hh @ CHR '':'' # twoDigits m @ CHR '':'' # twoDigits s"
  have ms: "m < 100" "s < 100" using assms by simp_all
  have "js_split CHR '' '' (?t @ CHR '' '' # p) = ?t # js_split CHR '' '' p"
    using split_time(2) [OF assms(1,2) ms] by (rule js_split_append)
  then have 1: "js_split CHR '' '' (hh @ CHR '':'' # twoDigits m @ CHR '':'' # twoDigits s @ CHR '' '' # p) = ?t # [p]"
    using assms(6) by (simp add: js_split_none)
  show ?thesis
    by (simp add: parse12HourTime_pieces [OF 1 split_time(1) [OF assms(1,2) ms]]
          elemAt_def js_Number_twoDigits ms assms(5))
qed

lemma secondOfDay_lt: "secondOfDay a < 86400"
  by (simp add: secondOfDay_def)

lemma newDate000_time:
  assumes "n < 86400"
  shows "newDate000 (Some (int (n div 3600))) (Some (int ((n div 60) mod 60))) (int (n mod 60)) = Some (timeValue n)"
proof -
  have a: "n div 3600 = (n div 60) div 60"
    using div_mult2_eq [of n 60 60] by simp
  have "(n div 3600) * 3600 + ((n div 60) mod 60) * 60 + n mod 60 = n"
    using div_mult_mod_eq [of n 60] div_mult_mod_eq [of "n div 60" 60] a by linarith
  from arg_cong [OF this, of int]
  have "int (n div 3600) * 3600 + int ((n div 60) mod 60) * 60 + int (n mod 60) = int n"
    by (simp only: of_nat_add of_nat_mult of_nat_numeral)
  then have "int (n div 3600) * 3600000 + int ((n div 60) mod 60) * 60000 + int (n mod 60) * 1000 = int n * 1000"
    by linarith
  moreover have "int n * 1000 < 86400000" using assms by simp
  ultimately show ?thesis
    by (simp add: newDate000_def timeValue_def Let_def)
qed

lemma parse_hhmmss:
  assumes "n < 86400"
  shows "parse12HourTime (hhmmss n) = Some (timeValue n)"
proof -
  have h: "n div 3600 < 100" and m: "(n div 60) mod 60 < 60" and s: "n mod 60 < 60"
    using assms by simp_all
  have "parse12HourTime (twoDigits (n div 3600) @ CHR '':'' # twoDigits ((n div 60) mod 60) @ CHR '':'' # twoDigits (n mod 60))
        = newDate000 (Some (int (n div 3600))) (Some (int ((n div 60) mod 60))) (int (n mod 60))"
    using twoDigits_no_sep [OF h] by (intro parse_time_plain m s js_Number_twoDigits h) simp_all
  then show ?thesis
    by (simp add: hhmmss_def newDate000_time [OF assms])
qed

lemma parse_formatTime12Hour: "parse12HourTime (formatTime12Hour a) = Some (timeValue (secondOfDay a))"
proof -
  define n where "n = secondOfDay a"
  define h12 where "h12 = (if (n div 3600) mod 12 = 0 then 12 else (n div 3600) mod 12)"
  define p where "p = (if n div 3600 < 12 then ''AM'' else ''PM'')"
  have n: "n < 86400" unfolding n_def by (rule secondOfDay_lt)
  have m: "(n div 60) mod 60 < 60" and s: "n mod 60 < 60" by simp_all
  have h: "n div 3600 < 24" using n by simp
  have p: "CHR '' '' \<notin> set p" by (simp add: p_def)
  have fmt: "formatTime12Hour a = digits h12 @ CHR '':'' # twoDigits ((n div 60) mod 60) @ CHR '':'' # twoDigits (n mod 60) @ CHR '' '' # p"
    by (simp add: formatTime12Hour_def Let_def n_def [symmetric] h12_def p_def padStart2_digits)
  have h24: "(if p = ''AM'' \<and> int h12 = 12 then Some 0 else if p = ''PM'' \<and> int h12 \<noteq> 12 then Some (int h12 + 12) else Some (int h12))
        = Some (int (n div 3600))"
    using h unfolding h12_def p_def by (auto simp: mod_if)
  have "parse12HourTime (formatTime12Hour a) =
        newDate000 (if p = ''AM'' \<and> int h12 = 12 then Some 0 else if p = ''PM'' \<and> int h12 \<noteq> 12 then Some (int h12 + 12) else Some (int h12))
          (Some (int ((n div 60) mod 60))) (int (n mod 60))"
    unfolding fmt using digits_no_sep [of h12]
    by (intro parse_time_marked m s js_Number_digits p) simp_all
  then have "parse12HourTime (formatTime12Hour a) =
        newDate000 (Some (int (n div 3600))) (Some (int ((n div 60) mod 60))) (int (n mod 60))"
    by (simp only: h24)
  then have "parse12HourTime (formatTime12Hour a) = Some (timeValue n)"
    by (simp only: newDate000_time [OF n])
  then show ?thesis
    by (simp only: n_def)
qed

lemma floor_hours: "Math_floor (of_int (1000 * k) / (1000 * 60 * 60)) = k div 3600"
proof -
  have "(of_int (1000 * k) :: rat) / (1000 * 60 * 60) = of_int k / of_int 3600"
    by simp
  then show ?thesis
    unfolding Math_floor_def by (simp only: floor_divide_of_int_eq)
qed

lemma floor_seconds:
  assumes "0 \<le> k"
  shows "Math_floor (js_rem (of_int (1000 * k) / 1000) 60) = k mod 60"
proof -
  have x: "(of_int (1000 * k) :: rat) / 1000 = of_int k" by simp
  have "0 \<le> (of_int k :: rat) / 60" using assms by simp
  then have t: "js_trunc ((of_int k :: rat) / 60) = k div 60"
    unfolding js_trunc_def using floor_divide_of_int_eq [of k 60, where ?'a = rat] by simp
  have "js_rem (of_int k) 60 = (of_int (k - 60 * (k div 60)) :: rat)"
    by (simp add: js_rem_def t)
  also have "k - 60 * (k div 60) = k mod 60"
    by (simp add: minus_mult_div_eq_mod)
  finally show ?thesis
    by (simp add: Math_floor_def x)
qed

lemma floor_minutes:
  assumes "0 \<le> k"
  shows "Math_floor (js_rem (of_int (1000 * k) / (1000 * 60)) 60) = (k div 60) mod 60"
proof -
  have x: "(of_int (1000 * k) :: rat) / (1000 * 60) = of_int k / 60" by simp
  have y: "(of_int k :: rat) / 60 / 60 = of_int k / of_int 3600" by simp
  have "0 \<le> (of_int k :: rat) / 3600" using assms by simp
  then have t: "js_trunc ((of_int k :: rat) / 3600) = k div 3600"
    unfolding js_trunc_def using floor_divide_of_int_eq [of k 3600, where ?'a = rat] by simp
  have "js_rem (of_int k / 60) 60 = (of_int k :: rat) / of_int 60 - of_int (60 * (k div 3600))"
    by (simp add: js_rem_def t)
  then have "\<lfloor>js_rem ((of_int k :: rat) / 60) 60\<rfloor> = k div 60 - 60 * (k div 3600)"
    by (simp only: floor_diff_of_int floor_divide_of_int_eq)
  also have "k div 3600 = (k div 60) div 60"
    using zdiv_zmult2_eq [of 60 k 60] by simp
  also have "k div 60 - 60 * ((k div 60) div 60) = (k div 60) mod 60"
    by (simp add: minus_mult_div_eq_mod)
  finally show ?thesis
    by (simp add: Math_floor_def x)
qed

lemma duration_of_times:
  assumes s: "parse12HourTime startTime = Some (timeValue a)"
    and e: "parse12HourTime endTimeString = Some (timeValue b)"
    and "a < b" "b < 86400"
  shows "duration_of startTime endTimeString = hhmmss (b - a)"
proof -
  define k where "k = b - a"
  have k: "int b - int a = int k" "k < 86400" using assms by (simp_all add: k_def)
  have ms: "durationMs startTime endTimeString = Some (1000 * int k)"
    using k(1) by (simp add: durationMs_def s e timeValue_def)
  have h: "k div 3600 < 100" and m: "(k div 60) mod 60 < 100" and sec: "k mod 60 < 100"
    using k(2) by simp_all
  have fh: "Math_floor (of_int (1000 * int k) / (1000 * 60 * 60)) = int (k div 3600)"
    using floor_hours [of "int k"] by (simp add: zdiv_int)
  have fm: "Math_floor (js_rem (of_int (1000 * int k) / (1000 * 60)) 60) = int ((k div 60) mod 60)"
    using floor_minutes [of "int k"] by (simp add: zdiv_int zmod_int)
  have fs: "Math_floor (js_rem (of_int (1000 * int k) / 1000) 60) = int (k mod 60)"
    using floor_seconds [of "int k"] by (simp add: zmod_int)
  have "duration_of startTime endTimeString =
        padStart 2 (digits (k div 3600)) @ '':'' @ padStart 2 (digits ((k div 60) mod 60)) @ '':''
          @ padStart 2 (digits (k mod 60))"
    unfolding duration_of_def Let_def ms option.map fh fm fs
    by (simp add: js_toString_def)
  then have "duration_of startTime endTimeString = hhmmss k"
    by (simp add: padStart2_digits h m sec hhmmss_def)
  then show ?thesis
    by (simp only: k_def)
qed

lemma duration_of_wall_clock:
  assumes "startTime = formatTime12Hour a \<or> startTime = hhmmss (secondOfDay a)"
    and "secondOfDay a < secondOfDay b"
  shows "duration_of startTime (formatTime12Hour b) = hhmmss (secondOfDay b - secondOfDay a)"
proof -
  have "parse12HourTime startTime = Some (timeValue (secondOfDay a))"
    using assms(1) parse_formatTime12Hour parse_hhmmss [OF secondOfDay_lt] by auto
  then show ?thesis
    using parse_formatTime12Hour assms(2) secondOfDay_lt by (rule duration_of_times)
qed

subsection \<open>Actions\<close>

lemma query_Inr: "f (store s) = Inr a \<Longrightarrow> query c f s = (Inr a, s\<lparr>calls := calls s @ [c]\<rparr>)"
  by (simp add: query_def wrap_def)

lemma query_Inl: "f (store s) = Inl m \<Longrightarrow> query c f s = (Inl (StoreError m), s\<lparr>calls := calls s @ [c]\<rparr>)"
  by (simp add: query_def wrap_def)


lemma await_Inl: "m s = (Inl e, s') \<Longrightarrow> await m f s = (Inl e, s')"
  by (simp add: await_def)

lemma isTimerRunning_data:
  assumes "getWorksheetData G docId name ''A6:C'' (store s) = Inr data"
  shows "isTimerRunning G docId name s =
         (Inr (lastRowOpen data), s\<lparr>calls := calls s @ [GetWorksheetData docId name ''A6:C'']\<rparr>)"
  by (auto simp: isTimerRunning_def await_def query_def wrap_def assms resolve_def lastRowOpen_def
        openRow_def Let_def last_conv_nth split: option.splits)

lemma findActiveTimerRow_data:
  assumes "getWorksheetData G docId name ''A6:C'' (store s) = Inr data"
  shows "findActiveTimerRow G docId name s =
         (Inr (if lastRowOpen data then Some (the (last (the data)), length (the data) + 5) else None),
          s\<lparr>calls := calls s @ [GetWorksheetData docId name ''A6:C'']\<rparr>)"
  by (auto simp: findActiveTimerRow_def await_def query_def wrap_def assms resolve_def lastRowOpen_def
        openRow_def Let_def last_conv_nth split: option.splits)

lemma lastRowOpen_snoc: "lastRowOpen (Some (earlier @ [Some row])) = openRow row"
  by (simp add: lastRowOpen_def)

lemma dateRegex_ne: "dateRegex c \<Longrightarrow> c \<noteq> []"
  by (auto simp: dateRegex_def)

lemma firstNotInvoiced_Some:
  "firstNotInvoiced G docId names s = (Inr (Some c), s') \<Longrightarrow> c \<in> set names"
  by (induction names arbitrary: s) (auto split: prod.splits sum.splits if_splits)

lemma getCurrentSheet_dateRegex:
  assumes "getCurrentSheet G docId s = (Inr (Some c), s')"
  shows "dateRegex c"
proof -
  from assms obtain names s1 where
    "firstNotInvoiced G docId (rev (sort (filter dateRegex names))) s1 = (Inr (Some c), s')"
    by (auto simp: getCurrentSheet_def await_def split: prod.splits sum.splits)
  from firstNotInvoiced_Some [OF this] show ?thesis by simp
qed

lemma stopTimer_no_sheet:
  assumes cfg: "getConfig G docId s = (Inr config, s1)"
    and cur: "getCurrentSheet G docId s1 = (Inr None, s2)"
  shows "stopTimer G zoned docId endTime s = (Inl NoActiveTimerError, s2)"
  by (simp add: stopTimer_def await_def cfg cur truthy_def throw_def)


lemma stopTimer_open:
  assumes cfg: "getConfig G docId s = (Inr config, s1)"
    and cur: "getCurrentSheet G docId s1 = (Inr (Some name), s2)"
    and data: "getWorksheetData G docId name ''A6:C'' (store s2) = Inr (Some (earlier @ [Some row]))"
    and running: "openRow row"
    and upd: "updateCell G docId name (''C'' @ digits (length earlier + 6))
               (formatTime12Hour (getDateInTimezone zoned (stopInstant endTime s2) (Some (timezoneOf config))))
               (store s2) = (r, st')"
  shows "fst (stopTimer G zoned docId endTime s) =
           (case r of
              Inl m \<Rightarrow> Inl (StoreError m)
            | Inr _ \<Rightarrow>
                Inr \<lparr>sheet = name,
                     end' = getDateInTimezone zoned (stopInstant endTime s2) (Some (timezoneOf config)),
                     duration = duration_of (row ! 1)
                       (formatTime12Hour (getDateInTimezone zoned (stopInstant endTime s2) (Some (timezoneOf config))))\<rparr>)"
    and "calls (snd (stopTimer G zoned docId endTime s)) =
           calls s2 @ [GetWorksheetData docId name ''A6:C'',
             UpdateCell docId name (''C'' @ digits (length earlier + 6))
               (formatTime12Hour (getDateInTimezone zoned (stopInstant endTime s2) (Some (timezoneOf config))))]"
    and "store (snd (stopTimer G zoned docId endTime s)) = st'"
proof -
  have ne: "name \<noteq> []" using dateRegex_ne [OF getCurrentSheet_dateRegex [OF cur]] .
  have lro: "lastRowOpen (Some (earlier @ [Some row]))" using running by (simp add: lastRowOpen_snoc)
  have start: "elemAt row (Suc 0) = Some (row ! Suc 0)"
    using running by (auto simp: openRow_def truthy_def elemAt_def split: if_splits)
  have far: "findActiveTimerRow G docId name s2 =
      (Inr (Some (row, length earlier + 6)), s2\<lparr>calls := calls s2 @ [GetWorksheetData docId name ''A6:C'']\<rparr>)"
    using findActiveTimerRow_data [OF data] lro by simp
  note defs = stopTimer_def await_def cfg cur truthy_def throw_def resolve_def
    far Let_def mutate_def wrap_def Date_now_def stopInstant_def start
  show "fst (stopTimer G zoned docId endTime s) =
           (case r of
              Inl m \<Rightarrow> Inl (StoreError m)
            | Inr _ \<Rightarrow>
                Inr \<lparr>sheet = name,
                     end' = getDateInTimezone zoned (stopInstant endTime s2) (Some (timezoneOf config)),
                     duration = duration_of (row ! 1)
                       (formatTime12Hour (getDateInTimezone zoned (stopInstant endTime s2) (Some (timezoneOf config))))\<rparr>)"
    using ne upd by (cases endTime; cases r) (simp_all add: defs)
  show "calls (snd (stopTimer G zoned docId endTime s)) =
           calls s2 @ [GetWorksheetData docId name ''A6:C'',
             UpdateCell docId name (''C'' @ digits (length earlier + 6))
               (formatTime12Hour (getDateInTimezone zoned (stopInstant endTime s2) (Some (timezoneOf config))))]"
    using ne upd by (cases endTime; cases r) (simp_all add: defs)
  show "store (snd (stopTimer G zoned docId endTime s)) = st'"
    using ne upd by (cases endTime; cases r) (simp_all add: defs)
qed


text \<open>Evaluating the engine over the mocks of the test file.\<close>

lemma mock_defs:
  "getWorksheets mockGoogleSheetsService = (\<lambda>sheetId st. Inr [''2025-01-01''])"
  "getWorksheetData mockGoogleSheetsService = (\<lambda>sheetId worksheetName range st. Inr (Some []))"
  "getWorksheets mockGoogleSheetsServiceWithRunningTimer = (\<lambda>sheetId st. Inr [''2025-01-01''])"
  "getWorksheetData mockGoogleSheetsServiceWithRunningTimer =
     (\<lambda>sheetId worksheetName range st. Inr (Some [Some [''2025-01-01'', ''09:00:00'']]))"
  "updateCell mockGoogleSheetsServiceWithRunningTimer = (\<lambda>sheetId worksheetName cell v st. (Inr (), st))"
  "appendRow mockGoogleSheetsServiceWithRunningTimer = (\<lambda>sheetId worksheetName values st. (Inr (), st))"
  "appendRow mockGoogleSheetsService = (\<lambda>sheetId worksheetName values st. (Inr (), st))"
  by (simp_all add: mockGoogleSheetsService_def mockGoogleSheetsServiceWithRunningTimer_def)

lemmas run_defs = await_def query_def mutate_def wrap_def resolve_def throw_def Date_now_def
  tryCatch_def cachePut_def

lemmas engine_defs = getConfig_def fetchConfig_def getCurrentSheet_def newTimerService_def
  run_defs dateRegex_def isDigit_def notInvoiced_def elemAt_def truthy_def

subsection \<open>The timer's state is read off the last data row\<close>

text \<open>
  Claim C3. The timer's state depends only on the last row that the read of \<^verbatim>\<open>A6:C\<close> of
  the current sheet returns: \<^verbatim>\<open>isTimerRunning\<close> is true exactly when that row has a
  non-empty Start and an empty End, and \<^verbatim>\<open>findActiveTimerRow\<close> returns that row (with its
  sheet row number) in this case and nothing otherwise, whatever the rows before it hold:
  an open row that is not the last one neither makes the timer run nor is returned. With
  no entries both report an idle timer, and with no current sheet \<^verbatim>\<open>stopTimer\<close> finds no
  active timer.
\<close>

theorem timer_state_last_row:
  "(getWorksheetData G docId name ''A6:C'' (store s) = Inr (Some (earlier @ [lastRow])) \<longrightarrow>
      fst (isTimerRunning G docId name s)
        = Inr (case lastRow of None \<Rightarrow> False | Some row \<Rightarrow> openRow row)
    \<and> fst (findActiveTimerRow G docId name s)
        = Inr (case lastRow of
                 None \<Rightarrow> None
               | Some row \<Rightarrow> if openRow row then Some (row, length earlier + 6) else None))
   \<and> ((getWorksheetData G docId name ''A6:C'' (store s) = Inr None
        \<or> getWorksheetData G docId name ''A6:C'' (store s) = Inr (Some [])) \<longrightarrow>
      fst (isTimerRunning G docId name s) = Inr False
    \<and> fst (findActiveTimerRow G docId name s) = Inr None)
   \<and> (getConfig G docId s = (Inr config, s1) \<and> getCurrentSheet G docId s1 = (Inr None, s2) \<longrightarrow>
      fst (stopTimer G zoned docId endTime s) = Inl NoActiveTimerError)"
proof (intro conjI impI)
  assume d: "getWorksheetData G docId name ''A6:C'' (store s) = Inr (Some (earlier @ [lastRow]))"
  have o: "lastRowOpen (Some (earlier @ [lastRow])) = (case lastRow of None \<Rightarrow> False | Some row \<Rightarrow> openRow row)"
    by (simp add: lastRowOpen_def)
  show "fst (isTimerRunning G docId name s)
        = Inr (case lastRow of None \<Rightarrow> False | Some row \<Rightarrow> openRow row)"
    by (simp add: isTimerRunning_data [OF d] o)
  show "fst (findActiveTimerRow G docId name s)
        = Inr (case lastRow of
                 None \<Rightarrow> None
               | Some row \<Rightarrow> if openRow row then Some (row, length earlier + 6) else None)"
    by (simp add: findActiveTimerRow_data [OF d] o split: option.splits)
next
  assume "getWorksheetData G docId name ''A6:C'' (store s) = Inr None
        \<or> getWorksheetData G docId name ''A6:C'' (store s) = Inr (Some [])"
  then show "fst (isTimerRunning G docId name s) = Inr False"
    by (auto simp: isTimerRunning_data lastRowOpen_def)
next
  assume "getWorksheetData G docId name ''A6:C'' (store s) = Inr None
        \<or> getWorksheetData G docId name ''A6:C'' (store s) = Inr (Some [])"
  then show "fst (findActiveTimerRow G docId name s) = Inr None"
    by (auto simp: findActiveTimerRow_data lastRowOpen_def)
next
  assume "getConfig G docId s = (Inr config, s1) \<and> getCurrentSheet G docId s1 = (Inr None, s2)"
  then show "fst (stopTimer G zoned docId endTime s) = Inl NoActiveTimerError"
    by (simp add: stopTimer_no_sheet)
qed

theorem timer_state_last_row_witness:
  "fst (isTimerRunning
          (mockGoogleSheetsService
             \<lparr>getWorksheetData := \<lambda>sheetId worksheetName range st.
                Inr (Some [Some [''2025-01-01'', ''9:00:00 AM''],
                           Some [''2025-01-01'', ''10:00:00 AM'', ''11:00:00 AM'']])\<rparr>)
          ''doc'' ''2025-01-01'' (newTimerService () (\<lambda>n. 0))) = Inr False
   \<and> fst (findActiveTimerRow mockGoogleSheetsServiceWithRunningTimer
          ''doc'' ''2025-01-01'' (newTimerService () (\<lambda>n. 0)))
       = Inr (Some ([''2025-01-01'', ''09:00:00''], 6))
   \<and> fst (stopTimer (mockGoogleSheetsService \<lparr>getWorksheets := \<lambda>sheetId st. Inr [''Config'', ''Notes'']\<rparr>)
          (\<lambda>name d. None) ''doc'' None (newTimerService () (\<lambda>n. 0))) = Inl NoActiveTimerError"
proof -
  let ?G1 = "mockGoogleSheetsService
             \<lparr>getWorksheetData := \<lambda>sheetId worksheetName range st.
                Inr (Some [Some [''2025-01-01'', ''9:00:00 AM''],
                           Some [''2025-01-01'', ''10:00:00 AM'', ''11:00:00 AM'']])\<rparr>"
  let ?G3 = "mockGoogleSheetsService \<lparr>getWorksheets := \<lambda>sheetId st. Inr [''Config'', ''Notes'']\<rparr>"
  let ?s = "newTimerService () (\<lambda>n. 0)"
  have 1: "getWorksheetData ?G1 ''doc'' ''2025-01-01'' ''A6:C'' (store ?s)
        = Inr (Some ([Some [''2025-01-01'', ''9:00:00 AM'']] @ [Some [''2025-01-01'', ''10:00:00 AM'', ''11:00:00 AM'']]))"
    by simp
  have 2: "getWorksheetData mockGoogleSheetsServiceWithRunningTimer ''doc'' ''2025-01-01'' ''A6:C'' (store ?s)
        = Inr (Some ([] @ [Some [''2025-01-01'', ''09:00:00'']]))"
    by (simp add: mock_defs)
  have 3: "getConfig ?G3 ''doc'' ?s = (Inr Map.empty, snd (getConfig ?G3 ''doc'' ?s))
        \<and> getCurrentSheet ?G3 ''doc'' (snd (getConfig ?G3 ''doc'' ?s))
            = (Inr None, snd (getCurrentSheet ?G3 ''doc'' (snd (getConfig ?G3 ''doc'' ?s))))"
    by (simp add: getConfig_def fetchConfig_def getCurrentSheet_def newTimerService_def mock_defs
          run_defs dateRegex_def prod_eq_iff)
  show ?thesis
    using timer_state_last_row [THEN conjunct1, rule_format, OF 1]
      timer_state_last_row [THEN conjunct1, rule_format, OF 2]
      timer_state_last_row [THEN conjunct2, THEN conjunct2, rule_format, OF 3, of "\<lambda>name d. None" None]
    by (simp add: openRow_def truthy_def elemAt_def)
qed

subsection \<open>Stopping\<close>



text \<open>
  Claim C1. When the Start string of the open row is a time of day, in the 12-hour form
  the engine writes or in the 24-hour form \<^verbatim>\<open>HH:MM:SS\<close>, and the end falls later on the
  same day, \<^verbatim>\<open>stopTimer\<close> returns as duration the whole seconds from start to end, as
  hours, minutes and seconds on two digits each, joined by colons (start \<^verbatim>\<open>09:00:00\<close> and
  end \<^verbatim>\<open>10:15:30\<close> give \<^verbatim>\<open>01:15:30\<close>, the case of the test file, in the witness).
\<close>

theorem stopTimer_duration:
  assumes cfg: "getConfig G docId s = (Inr config, s1)"
    and cur: "getCurrentSheet G docId s1 = (Inr (Some name), s2)"
    and data: "getWorksheetData G docId name ''A6:C'' (store s2) = Inr (Some (earlier @ [Some row]))"
    and running: "openRow row"
    and startTime: "row ! 1 = formatTime12Hour a \<or> row ! 1 = hhmmss (secondOfDay a)"
    and endT: "endT = getDateInTimezone zoned (stopInstant endTime s2) (Some (timezoneOf config))"
    and later: "secondOfDay a < secondOfDay endT"
    and upd: "updateCell G docId name (''C'' @ digits (length earlier + 6)) (formatTime12Hour endT) (store s2)
               = (Inr (), st')"
  shows "\<exists>r. fst (stopTimer G zoned docId endTime s) = Inr r
           \<and> duration r = hhmmss (secondOfDay endT - secondOfDay a)"
  using stopTimer_open(1) [OF cfg cur data running upd [unfolded endT]]
    duration_of_wall_clock [OF startTime later]
  by (simp add: endT)

theorem stopTimer_duration_witness:
  "\<exists>r. fst (stopTimer mockGoogleSheetsServiceWithRunningTimer (\<lambda>name d. None) ''test-sheet-id''
             (Some 1735726530000) (newTimerService () (\<lambda>n. 0))) = Inr r
       \<and> duration r = ''01:15:30''"
proof -
  let ?G = "mockGoogleSheetsServiceWithRunningTimer"
  let ?s = "newTimerService () (\<lambda>n. 0) :: unit state"
  let ?s1 = "snd (getConfig ?G ''test-sheet-id'' ?s)"
  let ?s2 = "snd (getCurrentSheet ?G ''test-sheet-id'' ?s1)"
  have cfg: "getConfig ?G ''test-sheet-id'' ?s = (Inr [''2025-01-01'' \<mapsto> ''09:00:00''], ?s1)"
    by (simp add: engine_defs mock_defs prod_eq_iff)
  have cur: "getCurrentSheet ?G ''test-sheet-id'' ?s1 = (Inr (Some ''2025-01-01''), ?s2)"
    by (simp add: engine_defs mock_defs prod_eq_iff)
  have data: "getWorksheetData ?G ''test-sheet-id'' ''2025-01-01'' ''A6:C'' (store ?s2)
        = Inr (Some ([] @ [Some [''2025-01-01'', ''09:00:00'']]))"
    by (simp add: mock_defs)
  have running: "openRow [''2025-01-01'', ''09:00:00'']"
    by (simp add: openRow_def truthy_def elemAt_def)
  have startTime: "[''2025-01-01'', ''09:00:00''] ! 1 = formatTime12Hour 32400000
        \<or> [''2025-01-01'', ''09:00:00''] ! 1 = hhmmss (secondOfDay 32400000)"
    by (simp add: hhmmss_def twoDigits_def digitChar_def secondOfDay_def)
  have endT: "1735726530000 = getDateInTimezone (\<lambda>name d. None) (stopInstant (Some 1735726530000) ?s2)
        (Some (timezoneOf [''2025-01-01'' \<mapsto> ''09:00:00'']))"
    by (simp add: getDateInTimezone_def stopInstant_def timezoneOf_def truthy_def)
  have later: "secondOfDay 32400000 < secondOfDay 1735726530000"
    by (simp add: secondOfDay_def)
  have upd: "updateCell ?G ''test-sheet-id'' ''2025-01-01'' (''C'' @ digits (length [] + 6))
        (formatTime12Hour 1735726530000) (store ?s2) = (Inr (), ())"
    by (simp add: mock_defs)
  have "hhmmss (secondOfDay 1735726530000 - secondOfDay 32400000) = ''01:15:30''"
    by (simp add: hhmmss_def twoDigits_def digitChar_def secondOfDay_def)
  with stopTimer_duration [OF cfg cur data running startTime endT later upd]
  show ?thesis by simp
qed

subsection \<open>Traces\<close>

lemma noRowWrite_refl: "noRowWrite s s"
  by (simp add: noRowWrite_def)

lemma noRowWrite_trans: "noRowWrite s s' \<Longrightarrow> noRowWrite s' s'' \<Longrightarrow> noRowWrite s s''"
  unfolding noRowWrite_def by (elim exE conjE, rule_tac x = "issued @ issueda" in exI) auto

lemma quietI: "(\<And>s. noRowWrite s (snd (m s))) \<Longrightarrow> quiet m"
  by (simp add: quiet_def)

lemma quietD: "quiet m \<Longrightarrow> noRowWrite s (snd (m s))"
  by (simp add: quiet_def)

lemma quiet_resolve: "quiet (resolve a)"
  by (simp add: quiet_def resolve_def noRowWrite_refl)

lemma quiet_throw: "quiet (throw e)"
  by (simp add: quiet_def throw_def noRowWrite_refl)

lemma quiet_Date_now: "quiet Date_now"
  by (simp add: quiet_def Date_now_def noRowWrite_def)

lemma quiet_query: "isRead c \<Longrightarrow> quiet (query c f)"
  by (auto simp: quiet_def query_def noRowWrite_def isRead_def isRowWrite_def split: call.splits)

lemma quiet_mutate: "\<not> isRead c \<Longrightarrow> \<not> isRowWrite c \<Longrightarrow> quiet (mutate c f)"
  by (auto simp: quiet_def mutate_def noRowWrite_def split: prod.splits)

lemma quiet_await: "quiet m \<Longrightarrow> (\<And>a. quiet (f a)) \<Longrightarrow> quiet (await m f)"
proof (rule quietI)
  fix s assume m: "quiet m" and f: "\<And>a. quiet (f a)"
  obtain r s' where ms: "m s = (r, s')" by (cases "m s")
  have 1: "noRowWrite s s'" using quietD [OF m, of s] ms by simp
  show "noRowWrite s (snd (await m f s))"
  proof (cases r)
    case (Inl e)
    with ms 1 show ?thesis by (simp add: await_def)
  next
    case (Inr a)
    with ms have "await m f s = f a s'" by (simp add: await_def)
    with noRowWrite_trans [OF 1 quietD [OF f, of s' a]] show ?thesis by simp
  qed
qed

lemma quiet_tryCatch: "quiet m \<Longrightarrow> (\<And>e. quiet (h e)) \<Longrightarrow> quiet (tryCatch m h)"
proof (rule quietI)
  fix s assume m: "quiet m" and h: "\<And>e. quiet (h e)"
  obtain r s' where ms: "m s = (r, s')" by (cases "m s")
  have 1: "noRowWrite s s'" using quietD [OF m, of s] ms by simp
  show "noRowWrite s (snd (tryCatch m h s))"
  proof (cases r)
    case (Inr a)
    with ms 1 show ?thesis by (simp add: tryCatch_def)
  next
    case (Inl e)
    with ms have "tryCatch m h s = h e s'" by (simp add: tryCatch_def)
    with noRowWrite_trans [OF 1 quietD [OF h, of s' e]] show ?thesis by simp
  qed
qed

lemma quiet_cachePut: "quiet (cachePut docId config)"
  by (simp add: quiet_def cachePut_def await_def Date_now_def noRowWrite_def)

lemma quiet_createConfigSheet: "quiet (createConfigSheet G docId)"
  unfolding createConfigSheet_def
  by (intro quiet_await quiet_mutate) (auto simp: isRead_def isRowWrite_def quiet_throw quiet_mutate split: option.splits)

lemma quiet_ensureConfigSheetExists: "quiet (ensureConfigSheetExists G docId)"
  unfolding ensureConfigSheetExists_def
  by (intro quiet_tryCatch quiet_await quiet_query quiet_createConfigSheet)
     (auto simp: isRead_def quiet_resolve quiet_createConfigSheet)

lemma quiet_fetchConfig: "quiet (fetchConfig G docId)"
proof (rule quietI)
  fix s :: "'a state"
  let ?q = "query (GetWorksheetData docId ''Config'' ''A1:B10'')
             (getWorksheetData G docId ''Config'' ''A1:B10'')"
  obtain r s1 where q: "?q s = (r, s1)" by (cases "?q s")
  have "quiet ?q" by (rule quiet_query) (simp add: isRead_def)
  from quietD [OF this, of s] have 1: "noRowWrite s s1"
    using q by simp
  have "noRowWrite s1 (snd (fetchConfig G docId s))"
  proof (cases r)
    case (Inl e)
    have "quiet (await (createConfigSheet G docId) (\<lambda>_. cachePut docId defaultConfig))"
      by (intro quiet_await quiet_createConfigSheet quiet_cachePut)
    from quietD [OF this, of s1] show ?thesis
      using q Inl by (simp add: fetchConfig_def)
  next
    case (Inr data)
    show ?thesis
      using q Inr quietD [OF quiet_cachePut, of s1] 
      by (auto simp: fetchConfig_def throw_def noRowWrite_refl split: option.splits sum.splits)
  qed
  with 1 show "noRowWrite s (snd (fetchConfig G docId s))" by (rule noRowWrite_trans)
qed

lemma quiet_getConfig: "quiet (getConfig G docId)"
proof (rule quietI)
  fix s :: "'a state"
  show "noRowWrite s (snd (getConfig G docId s))"
  proof (cases "configCache s docId")
    case None
    then show ?thesis using quietD [OF quiet_fetchConfig, of s G docId] by (simp add: getConfig_def)
  next
    case (Some p)
    obtain config timestamp where p: "p = (config, timestamp)" by (cases p)
    have "quiet (await Date_now
            (\<lambda>now. if now - timestamp < cacheTTL then resolve config else fetchConfig G docId))"
      by (intro quiet_await quiet_Date_now) (simp add: quiet_resolve quiet_fetchConfig)
    from quietD [OF this, of s] show ?thesis using Some p by (simp add: getConfig_def)
  qed
qed

lemma noRowWrite_calls: "noRowWrite s s' \<Longrightarrow> \<exists>issued. calls s' = calls s @ issued"
  by (auto simp: noRowWrite_def)

lemma fetchConfig_first_call:
  "\<exists>rest. calls (snd (fetchConfig G docId s))
      = calls s @ GetWorksheetData docId ''Config'' ''A1:B10'' # rest"
proof -
  let ?c = "GetWorksheetData docId ''Config'' ''A1:B10''"
  let ?s1 = "s\<lparr>calls := calls s @ [?c]\<rparr>"
  let ?r = "wrap (getWorksheetData G docId ''Config'' ''A1:B10'' (store s))"
  have q: "query ?c (getWorksheetData G docId ''Config'' ''A1:B10'') s = (?r, ?s1)"
    by (simp add: query_def)
  have "noRowWrite ?s1 (snd (fetchConfig G docId s))"
  proof (cases ?r)
    case (Inl e)
    have "quiet (await (createConfigSheet G docId) (\<lambda>_. cachePut docId defaultConfig))"
      by (intro quiet_await quiet_createConfigSheet quiet_cachePut)
    from quietD [OF this, of ?s1] show ?thesis
      using q Inl by (simp add: fetchConfig_def)
  next
    case (Inr data)
    show ?thesis
      using q Inr quietD [OF quiet_cachePut, of ?s1]
      by (auto simp: fetchConfig_def throw_def noRowWrite_refl split: option.splits sum.splits)
  qed
  from noRowWrite_calls [OF this] show ?thesis by auto
qed

lemma cacheTTL_ms: "cacheTTL = 300 * 1000"
  by (simp add: cacheTTL_def)

lemma getConfig_hit:
  assumes "configCache s docId = Some (config, timestamp)" "clock s (ticks s) - timestamp < cacheTTL"
  shows "getConfig G docId s = (Inr config, s\<lparr>ticks := Suc (ticks s)\<rparr>)"
  using assms by (simp add: getConfig_def await_def Date_now_def resolve_def)

lemma getConfig_miss:
  assumes "cacheMiss s docId"
  shows "getConfig G docId s =
         fetchConfig G docId (if configCache s docId = None then s else s\<lparr>ticks := Suc (ticks s)\<rparr>)"
  using assms
  by (auto simp: cacheMiss_def getConfig_def await_def Date_now_def split: option.splits)








subsection \<open>The configuration cache\<close>

text \<open>
  Claim C6. The time to live is 300 seconds. When \<^verbatim>\<open>getConfig\<close> finds a snapshot for the
  document whose age is strictly below it, it returns that snapshot and makes no call on
  the store (the documents and the cache stay as they were); when there is no snapshot or
  its age is 300 seconds or more, the first thing it does is a fresh read of the Config
  sheet.
\<close>

theorem getConfig_cache_ttl:
  "cacheTTL = 300 * 1000
   \<and> (configCache s docId = Some (config, timestamp) \<and> clock s (ticks s) - timestamp < cacheTTL \<longrightarrow>
        fst (getConfig G docId s) = Inr config
        \<and> calls (snd (getConfig G docId s)) = calls s
        \<and> store (snd (getConfig G docId s)) = store s
        \<and> configCache (snd (getConfig G docId s)) = configCache s)
   \<and> (cacheMiss s docId \<longrightarrow>
        (\<exists>rest. calls (snd (getConfig G docId s))
           = calls s @ GetWorksheetData docId ''Config'' ''A1:B10'' # rest))"
proof (intro conjI impI)
  show "cacheTTL = 300 * 1000" by (rule cacheTTL_ms)
next
  assume "configCache s docId = Some (config, timestamp) \<and> clock s (ticks s) - timestamp < cacheTTL"
  then have h: "getConfig G docId s = (Inr config, s\<lparr>ticks := Suc (ticks s)\<rparr>)"
    by (simp add: getConfig_hit)
  show "fst (getConfig G docId s) = Inr config" "calls (snd (getConfig G docId s)) = calls s"
    "store (snd (getConfig G docId s)) = store s" "configCache (snd (getConfig G docId s)) = configCache s"
    by (simp_all add: h)
next
  assume "cacheMiss s docId"
  from getConfig_miss [OF this, of G]
    fetchConfig_first_call [of G docId "if configCache s docId = None then s else s\<lparr>ticks := Suc (ticks s)\<rparr>"]
  show "\<exists>rest. calls (snd (getConfig G docId s))
           = calls s @ GetWorksheetData docId ''Config'' ''A1:B10'' # rest"
    by (auto split: if_splits)
qed

theorem getConfig_cache_ttl_witness:
  "calls (snd (getConfig mockGoogleSheetsService ''doc''
           (snd (getConfig mockGoogleSheetsService ''doc''
                  (newTimerService () (\<lambda>n. if n = 0 then 1000 else 300999))))))
     = [GetWorksheetData ''doc'' ''Config'' ''A1:B10'']
   \<and> (\<exists>rest. calls (snd (getConfig mockGoogleSheetsService ''doc''
           (snd (getConfig mockGoogleSheetsService ''doc''
                  (newTimerService () (\<lambda>n. if n = 0 then 1000 else 301000))))))
     = [GetWorksheetData ''doc'' ''Config'' ''A1:B10''] @ GetWorksheetData ''doc'' ''Config'' ''A1:B10'' # rest)"
proof -
  let ?M = "mockGoogleSheetsService"
  let ?a = "snd (getConfig ?M ''doc'' (newTimerService () (\<lambda>n. if n = 0 then 1000 else 300999)))"
  let ?b = "snd (getConfig ?M ''doc'' (newTimerService () (\<lambda>n. if n = 0 then 1000 else 301000)))"
  have a: "configCache ?a ''doc'' = Some (Map.empty, 1000) \<and> clock ?a (ticks ?a) - 1000 < cacheTTL"
    by (simp add: engine_defs mock_defs cacheTTL_def)
  have ca: "calls ?a = [GetWorksheetData ''doc'' ''Config'' ''A1:B10'']"
    by (simp add: engine_defs mock_defs)
  have b: "cacheMiss ?b ''doc''"
    by (simp add: engine_defs mock_defs cacheTTL_def cacheMiss_def)
  have cb: "calls ?b = [GetWorksheetData ''doc'' ''Config'' ''A1:B10'']"
    by (simp add: engine_defs mock_defs)
  from getConfig_cache_ttl [of ?a "''doc''" Map.empty 1000 ?M, THEN conjunct2, THEN conjunct1, rule_format, OF a]
    getConfig_cache_ttl [of ?b "''doc''" Map.empty 1000 ?M, THEN conjunct2, THEN conjunct2, rule_format, OF b]
  show ?thesis
    by (simp only: ca cb)
qed




subsection \<open>The current sheet\<close>

lemma notInvoiced_iff: "notInvoiced v \<longleftrightarrow> cellA1 v \<noteq> Some ''TRUE''"
  by (auto simp: notInvoiced_def cellA1_def elemAt_def split: option.splits list.splits)

lemma firstNotInvoiced_desc:
  assumes "sorted_wrt (\<lambda>x y. y \<le> x) names"
    and "\<forall>n \<in> set names. getWorksheetData G docId n ''A1'' (store s) = Inr (flag n)"
  shows "\<exists>r. fst (firstNotInvoiced G docId names s) = Inr r
           \<and> (case r of
                 None \<Rightarrow> \<forall>n \<in> set names. \<not> notInvoiced (flag n)
               | Some c \<Rightarrow> c \<in> set names \<and> notInvoiced (flag c)
                   \<and> (\<forall>n \<in> set names. c < n \<longrightarrow> \<not> notInvoiced (flag n)))"
  using assms
proof (induction names arbitrary: s)
  case Nil
  then show ?case by simp
next
  case (Cons x xs)
  let ?s' = "s\<lparr>calls := calls s @ [GetWorksheetData docId x ''A1'']\<rparr>"
  have q: "query (GetWorksheetData docId x ''A1'') (getWorksheetData G docId x ''A1'') s
      = (Inr (flag x), ?s')"
    using Cons.prems(2) by (simp add: query_def wrap_def)
  show ?case
  proof (cases "notInvoiced (flag x)")
    case True
    have "\<forall>n \<in> set (x # xs). x < n \<longrightarrow> \<not> notInvoiced (flag n)"
      using Cons.prems(1) by auto
    with True q show ?thesis by simp
  next
    case False
    have "\<forall>n \<in> set xs. getWorksheetData G docId n ''A1'' (store ?s') = Inr (flag n)"
      using Cons.prems(2) by simp
    from Cons.IH [OF _ this] Cons.prems(1)
    obtain r where r: "fst (firstNotInvoiced G docId xs ?s') = Inr r"
      "case r of
         None \<Rightarrow> \<forall>n \<in> set xs. \<not> notInvoiced (flag n)
       | Some c \<Rightarrow> c \<in> set xs \<and> notInvoiced (flag c)
           \<and> (\<forall>n \<in> set xs. c < n \<longrightarrow> \<not> notInvoiced (flag n))"
      by auto
    have "fst (firstNotInvoiced G docId (x # xs) s) = Inr r"
      using q False r(1) by simp
    moreover have "case r of
         None \<Rightarrow> \<forall>n \<in> set (x # xs). \<not> notInvoiced (flag n)
       | Some c \<Rightarrow> c \<in> set (x # xs) \<and> notInvoiced (flag c)
           \<and> (\<forall>n \<in> set (x # xs). c < n \<longrightarrow> \<not> notInvoiced (flag n))"
      using r(2) False by (cases r) auto
    ultimately show ?thesis by blast
  qed
qed

text \<open>
  Claim C5. Given the list of sheet names and the values of A1 of the names that match the
  date pattern, \<^verbatim>\<open>getCurrentSheet\<close> returns the greatest name, in the lexicographic order,
  among those that match the pattern and whose A1 is not exactly \<^verbatim>\<open>TRUE\<close>: the first such
  name in descending order. It returns none when every matching name is closed or no name
  matches. A name that does not match the pattern is never returned.
\<close>

theorem getCurrentSheet_latest_open:
  assumes "getWorksheets G docId (store s) = Inr names"
    and "\<forall>n \<in> set names. dateRegex n \<longrightarrow> getWorksheetData G docId n ''A1'' (store s) = Inr (flag n)"
  shows "\<exists>r. fst (getCurrentSheet G docId s) = Inr r
           \<and> (case r of
                 None \<Rightarrow> \<forall>n \<in> set names. dateRegex n \<longrightarrow> cellA1 (flag n) = Some ''TRUE''
               | Some c \<Rightarrow> c \<in> set names \<and> dateRegex c \<and> cellA1 (flag c) \<noteq> Some ''TRUE''
                   \<and> (\<forall>n \<in> set names. dateRegex n \<and> c < n \<longrightarrow> cellA1 (flag n) = Some ''TRUE''))"
proof -
  let ?c = "rev (sort (filter dateRegex names))"
  let ?s' = "s\<lparr>calls := calls s @ [GetWorksheets docId]\<rparr>"
  have g: "getCurrentSheet G docId s = firstNotInvoiced G docId ?c ?s'"
    using assms(1) by (simp add: getCurrentSheet_def await_def query_def wrap_def)
  have 1: "sorted_wrt (\<lambda>x y. y \<le> x) ?c"
    by (simp add: sorted_wrt_rev)
  have 2: "\<forall>n \<in> set ?c. getWorksheetData G docId n ''A1'' (store ?s') = Inr (flag n)"
    using assms(2) by simp
  from firstNotInvoiced_desc [OF 1 2] show ?thesis
    unfolding g by (auto simp: notInvoiced_iff split: option.splits)
qed

theorem getCurrentSheet_latest_open_witness:
  "fst (getCurrentSheet
          (mockGoogleSheetsService
             \<lparr>getWorksheets := \<lambda>sheetId st.
                Inr [''2025-01-01'', ''Config'', ''2025-03-01'', ''2025-02-01'', ''2025-2-9'', ''9999-99-99x''],
              getWorksheetData := \<lambda>sheetId worksheetName range st.
                if worksheetName = ''2025-03-01'' then Inr (Some [Some [''TRUE'']])
                else if worksheetName = ''2025-02-01'' then Inr (Some [Some [''FALSE'']])
                else Inr None\<rparr>)
          ''doc'' (newTimerService () (\<lambda>n. 0))) = Inr (Some ''2025-02-01'')
   \<and> fst (getCurrentSheet
          (mockGoogleSheetsService
             \<lparr>getWorksheets := \<lambda>sheetId st. Inr [''2025-01-01'', ''Notes''],
              getWorksheetData := \<lambda>sheetId worksheetName range st.
                if worksheetName = ''2025-01-01'' then Inr (Some [Some [''TRUE'']]) else Inr None\<rparr>)
          ''doc'' (newTimerService () (\<lambda>n. 0))) = Inr None"
proof -
  let ?names = "[''2025-01-01'', ''Config'', ''2025-03-01'', ''2025-02-01'', ''2025-2-9'', ''9999-99-99x'']"
  let ?flag = "\<lambda>worksheetName. if worksheetName = ''2025-03-01'' then Some [Some [''TRUE'']]
                else if worksheetName = ''2025-02-01'' then Some [Some [''FALSE'']]
                else None"
  let ?A = "mockGoogleSheetsService
             \<lparr>getWorksheets := \<lambda>sheetId st. Inr ?names,
              getWorksheetData := \<lambda>sheetId worksheetName range st.
                if worksheetName = ''2025-03-01'' then Inr (Some [Some [''TRUE'']])
                else if worksheetName = ''2025-02-01'' then Inr (Some [Some [''FALSE'']])
                else Inr None\<rparr>"
  let ?flagB = "\<lambda>worksheetName. if worksheetName = ''2025-01-01'' then Some [Some [''TRUE'']] else None"
  let ?B = "mockGoogleSheetsService
             \<lparr>getWorksheets := \<lambda>sheetId st. Inr [''2025-01-01'', ''Notes''],
              getWorksheetData := \<lambda>sheetId worksheetName range st.
                if worksheetName = ''2025-01-01'' then Inr (Some [Some [''TRUE'']]) else Inr None\<rparr>"
  let ?s = "newTimerService () (\<lambda>n. 0) :: unit state"
  have a1: "getWorksheets ?A ''doc'' (store ?s) = Inr ?names" by simp
  have a2: "\<forall>n \<in> set ?names. dateRegex n \<longrightarrow> getWorksheetData ?A ''doc'' n ''A1'' (store ?s) = Inr (?flag n)"
    by simp
  have b1: "getWorksheets ?B ''doc'' (store ?s) = Inr [''2025-01-01'', ''Notes'']" by simp
  have b2: "\<forall>n \<in> set [''2025-01-01'', ''Notes'']. dateRegex n \<longrightarrow>
      getWorksheetData ?B ''doc'' n ''A1'' (store ?s) = Inr (?flagB n)"
    by simp
  have A: "fst (getCurrentSheet ?A ''doc'' ?s) = Inr (Some ''2025-02-01'')"
    by (simp add: engine_defs)
  have B: "fst (getCurrentSheet ?B ''doc'' ?s) = Inr None"
    by (simp add: engine_defs)
  from getCurrentSheet_latest_open [OF a1 a2] getCurrentSheet_latest_open [OF b1 b2] A B
  show ?thesis by simp
qed

subsection \<open>Provisioning\<close>

lemma createConfigSheet_Inr:
  assumes "createConfigSheet G docId s = (Inr u, s')"
  shows "\<exists>props st1. createWorksheet G docId ''Config'' (store s) = (Inr (Some props), st1)
           \<and> batchUpdate G docId (configRequests (sheetId props)) st1 = (Inr (), store s')
           \<and> calls s' = calls s @ [CreateWorksheet docId ''Config'',
                 BatchUpdate docId (configRequests (sheetId props))]"
  using assms
  by (auto simp: createConfigSheet_def run_defs split: prod.splits sum.splits option.splits)






subsection \<open>The user-facing failures\<close>

lemma quiet_firstNotInvoiced: "quiet (firstNotInvoiced G docId names)"
proof (induction names)
  case Nil
  show ?case by (simp add: quiet_def noRowWrite_refl)
next
  case (Cons x xs)
  show ?case
  proof (rule quietI)
    fix s :: "'a state"
    let ?s' = "s\<lparr>calls := calls s @ [GetWorksheetData docId x ''A1'']\<rparr>"
    have 1: "noRowWrite s ?s'"
      by (simp add: noRowWrite_def isRead_def isRowWrite_def)
    have "snd (firstNotInvoiced G docId (x # xs) s) = ?s'
        \<or> snd (firstNotInvoiced G docId (x # xs) s) = snd (firstNotInvoiced G docId xs ?s')"
      by (auto simp: query_def split: sum.splits)
    then show "noRowWrite s (snd (firstNotInvoiced G docId (x # xs) s))"
      using 1 noRowWrite_trans [OF 1 quietD [OF Cons, of ?s']] by auto
  qed
qed

lemma quiet_getCurrentSheet: "quiet (getCurrentSheet G docId)"
  unfolding getCurrentSheet_def
  by (intro quiet_await quiet_query quiet_firstNotInvoiced) (simp add: isRead_def)

lemma quiet_isTimerRunning: "quiet (isTimerRunning G docId name)"
  unfolding isTimerRunning_def
  by (intro quiet_await quiet_query)
     (auto simp: isRead_def quiet_resolve Let_def split: option.splits)

lemma quiet_findActiveTimerRow: "quiet (findActiveTimerRow G docId name)"
  unfolding findActiveTimerRow_def
  by (intro quiet_await quiet_query)
     (auto simp: isRead_def quiet_resolve Let_def split: option.splits)

lemma quiet_createNewTimeSheet: "quiet (createNewTimeSheet G zoned docId timezone)"
  unfolding createNewTimeSheet_def Let_def
  by (intro quiet_await quiet_Date_now)
     (auto simp: quiet_throw quiet_resolve isRead_def isRowWrite_def
        intro!: quiet_await quiet_ensureConfigSheetExists quiet_mutate split: option.splits)

lemma failsQuietly_await:
  assumes "quiet m" and "\<And>a. failsQuietly e (f a)"
  shows "failsQuietly e (await m f)"
  unfolding failsQuietly_def
proof (intro allI impI)
  fix s assume a: "fst (await m f s) = Inl e"
  obtain r s1 where ms: "m s = (r, s1)" by (cases "m s")
  have 1: "noRowWrite s s1" using quietD [OF assms(1), of s] ms by simp
  show "noRowWrite s (snd (await m f s))"
  proof (cases r)
    case (Inl x)
    with ms 1 show ?thesis by (simp add: await_def)
  next
    case (Inr v)
    with ms have eq: "await m f s = f v s1" by (simp add: await_def)
    with a assms(2) [of v] have "noRowWrite s1 (snd (f v s1))"
      by (simp add: failsQuietly_def)
    with 1 show ?thesis unfolding eq by (rule noRowWrite_trans)
  qed
qed

lemma failsQuietly_throw: "failsQuietly e (throw e')"
  by (simp add: failsQuietly_def throw_def noRowWrite_refl)

lemma failsQuietly_store_error:
  assumes "\<And>s. \<exists>m. fst (k s) = Inl (StoreError m) \<or> (\<exists>v. fst (k s) = Inr v)"
    and "\<And>m. e \<noteq> StoreError m"
  shows "failsQuietly e k"
  unfolding failsQuietly_def using assms by (metis sum.inject(1) Inl_Inr_False)

lemma failsQuietly_never: "(\<And>s. fst (k s) \<noteq> Inl e) \<Longrightarrow> failsQuietly e k"
  by (simp add: failsQuietly_def)

lemma startTimer_tail:
  "\<exists>m. fst (await Date_now
            (\<lambda>d. let now = getDateInTimezone zoned d tz; date = isoDate now;
                     time = formatTime12Hour now; row = [date, time]
                 in await (mutate (AppendRow docId name row) (appendRow G docId name row))
                      (\<lambda>_. resolve \<lparr>sheet = name, date = date, start = time\<rparr>)) s)
         = Inl (StoreError m)
     \<or> (\<exists>v. fst (await Date_now
            (\<lambda>d. let now = getDateInTimezone zoned d tz; date = isoDate now;
                     time = formatTime12Hour now; row = [date, time]
                 in await (mutate (AppendRow docId name row) (appendRow G docId name row))
                      (\<lambda>_. resolve \<lparr>sheet = name, date = date, start = time\<rparr>)) s) = Inr v)"
  by (auto simp: run_defs Let_def split: prod.splits sum.splits)

text \<open>Runs that only read.\<close>

lemma readsOnly_refl: "readsOnly s s"
  by (simp add: readsOnly_def)

lemma readsOnly_trans: "readsOnly s s' \<Longrightarrow> readsOnly s' s'' \<Longrightarrow> readsOnly s s''"
  unfolding readsOnly_def by (elim exE conjE, rule_tac x = "issued @ issueda" in exI) auto

lemma readsOnly_tick: "readsOnly s (s\<lparr>ticks := n\<rparr>)"
  by (simp add: readsOnly_def)

lemma readsOnly_query: "isRead c \<Longrightarrow> readsOnly s (snd (query c f s))"
  by (simp add: readsOnly_def query_def)

lemma readsOnly_cachePut: "readsOnly s (snd (cachePut docId config s))"
  by (simp add: readsOnly_def cachePut_def await_def Date_now_def)

lemma readsOnly_firstNotInvoiced: "readsOnly s (snd (firstNotInvoiced G docId names s))"
proof (induction names arbitrary: s)
  case Nil
  show ?case by (simp add: readsOnly_refl)
next
  case (Cons x xs)
  let ?s' = "s\<lparr>calls := calls s @ [GetWorksheetData docId x ''A1'']\<rparr>"
  have 1: "readsOnly s ?s'"
    by (simp add: readsOnly_def isRead_def)
  have "snd (firstNotInvoiced G docId (x # xs) s) = ?s'
      \<or> snd (firstNotInvoiced G docId (x # xs) s) = snd (firstNotInvoiced G docId xs ?s')"
    by (auto simp: query_def split: sum.splits)
  then show ?case
    using 1 readsOnly_trans [OF 1 Cons [of ?s']] by auto
qed

lemma readsOnly_getCurrentSheet: "readsOnly s (snd (getCurrentSheet G docId s))"
proof -
  let ?s' = "s\<lparr>calls := calls s @ [GetWorksheets docId]\<rparr>"
  have 1: "readsOnly s ?s'"
    by (simp add: readsOnly_def isRead_def)
  have "snd (getCurrentSheet G docId s) = ?s'
      \<or> (\<exists>names. snd (getCurrentSheet G docId s) = snd (firstNotInvoiced G docId names ?s'))"
    by (auto simp: getCurrentSheet_def await_def query_def split: sum.splits)
  then show ?thesis
    using 1 readsOnly_trans [OF 1 readsOnly_firstNotInvoiced [of ?s']] by auto
qed

lemma readsOnly_isTimerRunning: "readsOnly s (snd (isTimerRunning G docId name s))"
proof (cases "getWorksheetData G docId name ''A6:C'' (store s)")
  case (Inl m)
  then show ?thesis
    by (simp add: isTimerRunning_def await_def query_def wrap_def readsOnly_def isRead_def)
next
  case (Inr data)
  show ?thesis
    by (simp add: isTimerRunning_data [OF Inr] readsOnly_def isRead_def)
qed

lemma readsOnly_findActiveTimerRow: "readsOnly s (snd (findActiveTimerRow G docId name s))"
proof (cases "getWorksheetData G docId name ''A6:C'' (store s)")
  case (Inl m)
  then show ?thesis
    by (simp add: findActiveTimerRow_def await_def query_def wrap_def readsOnly_def isRead_def)
next
  case (Inr data)
  show ?thesis
    by (simp add: findActiveTimerRow_data [OF Inr] readsOnly_def isRead_def)
qed

lemma readsOnly_fetchConfig:
  assumes "answered (getWorksheetData G docId ''Config'' ''A1:B10'' (store s))"
  shows "readsOnly s (snd (fetchConfig G docId s))"
proof -
  from assms obtain data where d: "getWorksheetData G docId ''Config'' ''A1:B10'' (store s) = Inr data"
    by (cases "getWorksheetData G docId ''Config'' ''A1:B10'' (store s)") (simp_all add: answered_def)
  let ?s1 = "s\<lparr>calls := calls s @ [GetWorksheetData docId ''Config'' ''A1:B10'']\<rparr>"
  have 1: "readsOnly s ?s1"
    by (simp add: readsOnly_def isRead_def)
  have "snd (fetchConfig G docId s) = ?s1
      \<or> (\<exists>config. snd (fetchConfig G docId s) = snd (cachePut docId config ?s1))"
    using d by (auto simp: fetchConfig_def query_def wrap_def throw_def split: option.splits sum.splits)
  then show ?thesis
    using 1 readsOnly_trans [OF 1 readsOnly_cachePut [of ?s1 docId]] by auto
qed

lemma readsOnly_getConfig:
  assumes "configAvailable G docId s"
  shows "readsOnly s (snd (getConfig G docId s))"
proof (cases "cacheMiss s docId")
  case True
  with assms have a: "answered (getWorksheetData G docId ''Config'' ''A1:B10'' (store s))"
    by (simp add: configAvailable_def)
  let ?s0 = "if configCache s docId = None then s else s\<lparr>ticks := Suc (ticks s)\<rparr>"
  have 0: "readsOnly s ?s0" by (simp add: readsOnly_refl readsOnly_tick)
  have "answered (getWorksheetData G docId ''Config'' ''A1:B10'' (store ?s0))"
    using a by simp
  from readsOnly_trans [OF 0 readsOnly_fetchConfig [OF this]] show ?thesis
    unfolding getConfig_miss [OF True] .
next
  case False
  then obtain config timestamp where
    "configCache s docId = Some (config, timestamp)" "clock s (ticks s) - timestamp < cacheTTL"
    by (auto simp: cacheMiss_def split: option.splits)
  from getConfig_hit [OF this] show ?thesis
    by (simp add: readsOnly_tick)
qed

text \<open>After its \<^verbatim>\<open>getConfig\<close>, a call that ends in the user-facing failure has only read.\<close>

lemma stopTimer_fails_reading:
  assumes "fst (stopTimer G zoned docId endTime s) = Inl NoActiveTimerError"
  shows "readsOnly (snd (getConfig G docId s)) (snd (stopTimer G zoned docId endTime s))"
proof -
  obtain r1 s1 where g: "getConfig G docId s = (r1, s1)" by (cases "getConfig G docId s")
  show ?thesis
  proof (cases r1)
    case (Inl e)
    with g show ?thesis by (simp add: stopTimer_def await_def readsOnly_refl)
  next
    case (Inr config)
    note g = g [unfolded Inr]
    obtain r2 s2 where c: "getCurrentSheet G docId s1 = (r2, s2)" by (cases "getCurrentSheet G docId s1")
    have 2: "readsOnly s1 s2" using readsOnly_getCurrentSheet [of s1 G docId] c by simp
    show ?thesis
    proof (cases r2)
      case (Inl e)
      with g c 2 show ?thesis by (simp add: stopTimer_def await_def Let_def)
    next
      case (Inr current)
      note c = c [unfolded Inr]
      show ?thesis
      proof (cases current)
        case None
        from stopTimer_no_sheet [OF g c [unfolded None]] g 2 show ?thesis by simp
      next
        case (Some name)
        note c = c [unfolded Some]
        have ne: "name \<noteq> []" using dateRegex_ne [OF getCurrentSheet_dateRegex [OF c]] .
        obtain r3 s3 where f: "findActiveTimerRow G docId name s2 = (r3, s3)"
          by (cases "findActiveTimerRow G docId name s2")
        have 3: "readsOnly s2 s3" using readsOnly_findActiveTimerRow [of s2 G docId name] f by simp
        have 13: "readsOnly s1 s3" using 2 3 by (rule readsOnly_trans)
        have "snd (stopTimer G zoned docId endTime s) = s3"
          using assms g c f ne
          by (auto simp: stopTimer_def await_def Let_def truthy_def run_defs
                split: sum.splits option.splits prod.splits)
        with g 13 show ?thesis by simp
      qed
    qed
  qed
qed

lemma startTimer_fails_reading:
  assumes "fst (startTimer G zoned docId description s) = Inl TimerAlreadyRunningError"
    and "fst (getCurrentSheet G docId (snd (getConfig G docId s))) \<noteq> Inr None"
  shows "readsOnly (snd (getConfig G docId s)) (snd (startTimer G zoned docId description s))"
proof -
  obtain r1 s1 where g: "getConfig G docId s = (r1, s1)" by (cases "getConfig G docId s")
  show ?thesis
  proof (cases r1)
    case (Inl e)
    with g show ?thesis by (simp add: startTimer_def await_def readsOnly_refl)
  next
    case (Inr config)
    note g = g [unfolded Inr]
    obtain r2 s2 where c: "getCurrentSheet G docId s1 = (r2, s2)" by (cases "getCurrentSheet G docId s1")
    have 2: "readsOnly s1 s2" using readsOnly_getCurrentSheet [of s1 G docId] c by simp
    show ?thesis
    proof (cases r2)
      case (Inl e)
      with g c 2 show ?thesis by (simp add: startTimer_def await_def Let_def)
    next
      case (Inr current)
      note c = c [unfolded Inr]
      from assms(2) g c obtain name where current: "current = Some name"
        by (cases current) simp_all
      note c = c [unfolded current]
      have ne: "name \<noteq> []" using dateRegex_ne [OF getCurrentSheet_dateRegex [OF c]] .
      obtain r3 s3 where f: "isTimerRunning G docId name s2 = (r3, s3)"
        by (cases "isTimerRunning G docId name s2")
      have 3: "readsOnly s2 s3" using readsOnly_isTimerRunning [of s2 G docId name] f by simp
      have 13: "readsOnly s1 s3" using 2 3 by (rule readsOnly_trans)
      have "snd (startTimer G zoned docId description s) = s3"
        using assms(1) g c f ne
        by (auto simp: startTimer_def await_def Let_def truthy_def run_defs
              split: sum.splits option.splits prod.splits if_splits)
      with g 13 show ?thesis by simp
    qed
  qed
qed

text \<open>
  Claim C10, as stated: a \<^verbatim>\<open>startTimer\<close> that fails with \<^verbatim>\<open>TimerAlreadyRunningError\<close> and a
  \<^verbatim>\<open>stopTimer\<close> that fails with \<^verbatim>\<open>NoActiveTimerError\<close> have issued no mutation and left the
  document unchanged. This fails on a document without a Config sheet: \<^verbatim>\<open>getConfig\<close>, the
  first step of both, creates the Config sheet before the check.
\<close>

theorem failing_calls_provision_config:
  "fst (startTimer googleSheetsService (\<lambda>name d. None) ''doc'' None
          (newTimerService openDocument (\<lambda>n. 1735726530000))) = Inl TimerAlreadyRunningError
   \<and> calls (snd (startTimer googleSheetsService (\<lambda>name d. None) ''doc'' None
          (newTimerService openDocument (\<lambda>n. 1735726530000))))
     = [GetWorksheetData ''doc'' ''Config'' ''A1:B10'', CreateWorksheet ''doc'' ''Config'',
        BatchUpdate ''doc'' (configRequests 1), GetWorksheets ''doc'',
        GetWorksheetData ''doc'' ''2025-01-01'' ''A1'', GetWorksheetData ''doc'' ''2025-01-01'' ''A6:C'']
   \<and> map_option titles (store (newTimerService openDocument (\<lambda>n. 1735726530000)) ''doc'')
     = Some [''2025-01-01'']
   \<and> map_option titles (store (snd (startTimer googleSheetsService (\<lambda>name d. None) ''doc'' None
          (newTimerService openDocument (\<lambda>n. 1735726530000)))) ''doc'')
     = Some [''2025-01-01'', ''Config'']
   \<and> store (snd (startTimer googleSheetsService (\<lambda>name d. None) ''doc'' None
          (newTimerService openDocument (\<lambda>n. 1735726530000))))
     \<noteq> store (newTimerService openDocument (\<lambda>n. 1735726530000))
   \<and> fst (stopTimer googleSheetsService (\<lambda>name d. None) ''doc'' None
          (newTimerService idleDocument (\<lambda>n. 1735726530000))) = Inl NoActiveTimerError
   \<and> calls (snd (stopTimer googleSheetsService (\<lambda>name d. None) ''doc'' None
          (newTimerService idleDocument (\<lambda>n. 1735726530000))))
     = [GetWorksheetData ''doc'' ''Config'' ''A1:B10'', CreateWorksheet ''doc'' ''Config'',
        BatchUpdate ''doc'' (configRequests 1), GetWorksheets ''doc'',
        GetWorksheetData ''doc'' ''2025-01-01'' ''A1'', GetWorksheetData ''doc'' ''2025-01-01'' ''A6:C'']
   \<and> map_option titles (store (snd (stopTimer googleSheetsService (\<lambda>name d. None) ''doc'' None
          (newTimerService idleDocument (\<lambda>n. 1735726530000)))) ''doc'')
     = Some [''2025-01-01'', ''Config'']"
proof -
  let ?S = "newTimerService openDocument (\<lambda>n. 1735726530000)"
  let ?r = "startTimer googleSheetsService (\<lambda>name d. None) ''doc'' None ?S"
  have 1: "fst ?r = Inl TimerAlreadyRunningError" by code_simp
  have 2: "calls (snd ?r)
     = [GetWorksheetData ''doc'' ''Config'' ''A1:B10'', CreateWorksheet ''doc'' ''Config'',
        BatchUpdate ''doc'' (configRequests 1), GetWorksheets ''doc'',
        GetWorksheetData ''doc'' ''2025-01-01'' ''A1'', GetWorksheetData ''doc'' ''2025-01-01'' ''A6:C'']"
    by code_simp
  have 3: "map_option titles (store ?S ''doc'') = Some [''2025-01-01'']" by code_simp
  have 4: "map_option titles (store (snd ?r) ''doc'') = Some [''2025-01-01'', ''Config'']" by code_simp
  have 5: "store (snd ?r) \<noteq> store ?S"
  proof
    assume "store (snd ?r) = store ?S"
    then have "map_option titles (store (snd ?r) ''doc'') = map_option titles (store ?S ''doc'')" by simp
    then show False unfolding 3 4 by simp
  qed
  let ?T = "newTimerService idleDocument (\<lambda>n. 1735726530000)"
  let ?q = "stopTimer googleSheetsService (\<lambda>name d. None) ''doc'' None ?T"
  have 6: "fst ?q = Inl NoActiveTimerError" by code_simp
  have 7: "calls (snd ?q)
     = [GetWorksheetData ''doc'' ''Config'' ''A1:B10'', CreateWorksheet ''doc'' ''Config'',
        BatchUpdate ''doc'' (configRequests 1), GetWorksheets ''doc'',
        GetWorksheetData ''doc'' ''2025-01-01'' ''A1'', GetWorksheetData ''doc'' ''2025-01-01'' ''A6:C'']"
    by code_simp
  have 8: "map_option titles (store (snd ?q) ''doc'') = Some [''2025-01-01'', ''Config'']" by code_simp
  show ?thesis
    by (intro conjI 1 2 3 4 5 6 7 8)
qed

text \<open>
  Claim C10, amended. A \<^verbatim>\<open>startTimer\<close> that fails with \<^verbatim>\<open>TimerAlreadyRunningError\<close> and a
  \<^verbatim>\<open>stopTimer\<close> that fails with \<^verbatim>\<open>NoActiveTimerError\<close> have issued no \<^verbatim>\<open>appendRow\<close> and no
  \<^verbatim>\<open>updateCell\<close>: the failing check comes strictly before them. After its \<^verbatim>\<open>getConfig\<close> the
  failing \<^verbatim>\<open>stopTimer\<close> has only read, and so has the failing \<^verbatim>\<open>startTimer\<close> that found a
  current sheet. So when the configuration is available without provisioning (a fresh
  snapshot in the cache, or the read of the Config sheet answered) and, for \<^verbatim>\<open>startTimer\<close>, a
  current sheet exists, the failing call has issued reads only and the documents are
  unchanged; the mutations a failing call can have issued are those that provision the
  Config sheet or a new period sheet.
\<close>

theorem failing_calls_read_only:
  "(fst (startTimer G zoned docId description s) = Inl TimerAlreadyRunningError \<longrightarrow>
      noRowWrite s (snd (startTimer G zoned docId description s))
      \<and> (fst (getCurrentSheet G docId (snd (getConfig G docId s))) \<noteq> Inr None \<longrightarrow>
            readsOnly (snd (getConfig G docId s)) (snd (startTimer G zoned docId description s)))
      \<and> (configAvailable G docId s
            \<and> fst (getCurrentSheet G docId (snd (getConfig G docId s))) \<noteq> Inr None \<longrightarrow>
            readsOnly s (snd (startTimer G zoned docId description s))))
   \<and> (fst (stopTimer G zoned docId endTime s) = Inl NoActiveTimerError \<longrightarrow>
      noRowWrite s (snd (stopTimer G zoned docId endTime s))
      \<and> readsOnly (snd (getConfig G docId s)) (snd (stopTimer G zoned docId endTime s))
      \<and> (configAvailable G docId s \<longrightarrow> readsOnly s (snd (stopTimer G zoned docId endTime s))))"
proof -
  have "failsQuietly TimerAlreadyRunningError (startTimer G zoned docId description)"
    unfolding startTimer_def Let_def
    apply (intro failsQuietly_await quiet_getConfig quiet_getCurrentSheet quiet_isTimerRunning)
     apply (simp add: quiet_createNewTimeSheet quiet_resolve)
    apply (simp add: failsQuietly_throw)
    apply (intro impI failsQuietly_store_error)
     apply (rule startTimer_tail [unfolded Let_def])
    apply simp
    done
  then have 1: "noRowWrite s (snd (startTimer G zoned docId description s))"
    if "fst (startTimer G zoned docId description s) = Inl TimerAlreadyRunningError"
    using that by (simp add: failsQuietly_def)
  have "failsQuietly NoActiveTimerError (stopTimer G zoned docId endTime)"
    unfolding stopTimer_def Let_def
    apply (intro failsQuietly_await quiet_getConfig quiet_getCurrentSheet)
    apply (simp add: failsQuietly_throw)
    apply (intro impI failsQuietly_await quiet_findActiveTimerRow)
    apply (split option.split)
    apply (intro conjI impI allI)
     apply (simp add: failsQuietly_throw)
    apply (simp split: prod.splits)
    apply (intro allI impI failsQuietly_never)
    apply (auto simp: run_defs split: option.splits prod.splits sum.splits)
    done
  then have 2: "noRowWrite s (snd (stopTimer G zoned docId endTime s))"
    if "fst (stopTimer G zoned docId endTime s) = Inl NoActiveTimerError"
    using that by (simp add: failsQuietly_def)
  show ?thesis
  proof (intro conjI impI)
    assume a: "fst (startTimer G zoned docId description s) = Inl TimerAlreadyRunningError"
    show "noRowWrite s (snd (startTimer G zoned docId description s))"
      using a by (rule 1)
    show "readsOnly (snd (getConfig G docId s)) (snd (startTimer G zoned docId description s))"
      if "fst (getCurrentSheet G docId (snd (getConfig G docId s))) \<noteq> Inr None"
      using a that by (rule startTimer_fails_reading)
    show "readsOnly s (snd (startTimer G zoned docId description s))"
      if b: "configAvailable G docId s
            \<and> fst (getCurrentSheet G docId (snd (getConfig G docId s))) \<noteq> Inr None"
    proof -
      from b have "readsOnly s (snd (getConfig G docId s))"
        by (simp add: readsOnly_getConfig)
      moreover from b have "readsOnly (snd (getConfig G docId s)) (snd (startTimer G zoned docId description s))"
        using a by (simp add: startTimer_fails_reading)
      ultimately show ?thesis by (rule readsOnly_trans)
    qed
  next
    assume a: "fst (stopTimer G zoned docId endTime s) = Inl NoActiveTimerError"
    show "noRowWrite s (snd (stopTimer G zoned docId endTime s))"
      using a by (rule 2)
    show r: "readsOnly (snd (getConfig G docId s)) (snd (stopTimer G zoned docId endTime s))"
      using a by (rule stopTimer_fails_reading)
    show "readsOnly s (snd (stopTimer G zoned docId endTime s))"
      if "configAvailable G docId s"
      using readsOnly_getConfig [OF that] r by (rule readsOnly_trans)
  qed
qed

theorem failing_calls_read_only_witness:
  "fst (startTimer mockGoogleSheetsServiceWithRunningTimer (\<lambda>name d. None) ''test-sheet-id'' None
          (newTimerService () (\<lambda>n. 0))) = Inl TimerAlreadyRunningError
   \<and> noRowWrite (newTimerService () (\<lambda>n. 0))
        (snd (startTimer mockGoogleSheetsServiceWithRunningTimer (\<lambda>name d. None) ''test-sheet-id'' None
               (newTimerService () (\<lambda>n. 0))))
   \<and> readsOnly (newTimerService () (\<lambda>n. 0))
        (snd (startTimer mockGoogleSheetsServiceWithRunningTimer (\<lambda>name d. None) ''test-sheet-id'' None
               (newTimerService () (\<lambda>n. 0))))
   \<and> fst (stopTimer mockGoogleSheetsService (\<lambda>name d. None) ''test-sheet-id'' None
          (newTimerService () (\<lambda>n. 0))) = Inl NoActiveTimerError
   \<and> noRowWrite (newTimerService () (\<lambda>n. 0))
        (snd (stopTimer mockGoogleSheetsService (\<lambda>name d. None) ''test-sheet-id'' None
               (newTimerService () (\<lambda>n. 0))))
   \<and> readsOnly (newTimerService () (\<lambda>n. 0))
        (snd (stopTimer mockGoogleSheetsService (\<lambda>name d. None) ''test-sheet-id'' None
               (newTimerService () (\<lambda>n. 0))))"
proof -
  let ?G = "mockGoogleSheetsServiceWithRunningTimer"
  let ?M = "mockGoogleSheetsService"
  let ?s = "newTimerService () (\<lambda>n. 0) :: unit state"
  let ?z = "\<lambda>name d. (None :: int option)"
  have a: "fst (startTimer ?G ?z ''test-sheet-id'' None ?s) = Inl TimerAlreadyRunningError"
    by code_simp
  have ca: "configAvailable ?G ''test-sheet-id'' ?s
      \<and> fst (getCurrentSheet ?G ''test-sheet-id'' (snd (getConfig ?G ''test-sheet-id'' ?s))) \<noteq> Inr None"
    by (simp add: configAvailable_def answered_def engine_defs mock_defs)
  have b: "fst (stopTimer ?M ?z ''test-sheet-id'' None ?s) = Inl NoActiveTimerError"
    by code_simp
  have cb: "configAvailable ?M ''test-sheet-id'' ?s"
    by (simp add: configAvailable_def answered_def mock_defs)
  note t = failing_calls_read_only [of ?G ?z "''test-sheet-id''" None ?s, THEN conjunct1, rule_format, OF a]
  note u = failing_calls_read_only [of ?M ?z "''test-sheet-id''" _ ?s None, THEN conjunct2, rule_format, OF b]
  from t [THEN conjunct1] t [THEN conjunct2, THEN conjunct2, rule_format, OF ca]
    u [THEN conjunct1] u [THEN conjunct2, THEN conjunct2, rule_format, OF cb] a b
  show ?thesis by simp
qed

subsection \<open>Starting twice, stopping an idle timer\<close>

lemma frame_refl: "frame new docId docs docs"
  by (simp add: frame_def split: option.splits)














lemma applyRequest_titles: "titles (applyRequest doc req) = titles doc"
  by (simp add: applyRequest_def Let_def)

lemma foldl_applyRequest:
  assumes "\<forall>req \<in> set reqs. requestSheet req = i"
  shows "foldl applyRequest doc reqs =
         doc\<lparr>cells := (cells doc)(titles doc ! i :=
                foldl (\<lambda>g req. requestOnGrid req g) (cells doc (titles doc ! i)) reqs)\<rparr>"
  using assms
proof (induction reqs arbitrary: doc)
  case Nil
  then show ?case by simp
next
  case (Cons req reqs)
  then have i: "requestSheet req = i" and rest: "\<forall>req \<in> set reqs. requestSheet req = i"
    by simp_all
  define t where "t = titles doc ! i"
  have d: "applyRequest doc req = doc\<lparr>cells := (cells doc)(t := requestOnGrid req (cells doc t))\<rparr>"
    by (simp add: applyRequest_def i Let_def t_def)
  have "foldl applyRequest doc (req # reqs) = foldl applyRequest (applyRequest doc req) reqs"
    by simp
  also have "\<dots> = (applyRequest doc req)\<lparr>cells := (cells (applyRequest doc req))
      (titles (applyRequest doc req) ! i :=
         foldl (\<lambda>g req. requestOnGrid req g)
           (cells (applyRequest doc req) (titles (applyRequest doc req) ! i)) reqs)\<rparr>"
    by (rule Cons.IH [OF rest])
  also have "\<dots> = doc\<lparr>cells := (cells doc)(t :=
         foldl (\<lambda>g req. requestOnGrid req g) (cells doc t) (req # reqs))\<rparr>"
    unfolding d by (simp add: t_def)
  finally show ?case unfolding t_def .
qed

lemma sheets_batchUpdate_Inl:
  "sheets_batchUpdate docId reqs docs = (Inl m, docs') \<Longrightarrow> docs' = docs"
  by (auto simp: sheets_batchUpdate_def split: option.splits if_splits)

lemma sheets_batchUpdate_Inr:
  assumes "sheets_batchUpdate docId reqs docs = (Inr u, docs')"
    and "\<forall>req \<in> set reqs. requestSheet req = i"
  obtains doc where "docs docId = Some doc"
    "docs' = docs(docId \<mapsto> doc\<lparr>cells := (cells doc)(titles doc ! i :=
                foldl (\<lambda>g req. requestOnGrid req g) (cells doc (titles doc ! i)) reqs)\<rparr>)"
  using assms(1) foldl_applyRequest [OF assms(2)]
  by (auto simp: sheets_batchUpdate_def split: option.splits if_splits)







lemma firstNotInvoiced_cong:
  assumes "\<forall>n \<in> set names. getWorksheetData G docId n ''A1'' (store s)
             = getWorksheetData G docId n ''A1'' (store t)"
  shows "fst (firstNotInvoiced G docId names s) = fst (firstNotInvoiced G docId names t)"
  using assms
proof (induction names arbitrary: s t)
  case Nil
  show ?case by simp
next
  case (Cons x xs)
  let ?s' = "s\<lparr>calls := calls s @ [GetWorksheetData docId x ''A1'']\<rparr>"
  let ?t' = "t\<lparr>calls := calls t @ [GetWorksheetData docId x ''A1'']\<rparr>"
  have x: "getWorksheetData G docId x ''A1'' (store s) = getWorksheetData G docId x ''A1'' (store t)"
    using Cons.prems by simp
  have "\<forall>n \<in> set xs. getWorksheetData G docId n ''A1'' (store ?s')
             = getWorksheetData G docId n ''A1'' (store ?t')"
    using Cons.prems by simp
  from Cons.IH [OF this] show ?case
    by (simp add: query_def x split: sum.splits)
qed

lemma getCurrentSheet_cong:
  assumes "getWorksheets G docId (store s) = getWorksheets G docId (store t)"
    and "\<forall>n. dateRegex n \<longrightarrow> getWorksheetData G docId n ''A1'' (store s)
             = getWorksheetData G docId n ''A1'' (store t)"
  shows "fst (getCurrentSheet G docId s) = fst (getCurrentSheet G docId t)"
proof (cases "getWorksheets G docId (store t)")
  case (Inl m)
  with assms(1) show ?thesis
    by (simp add: getCurrentSheet_def await_def query_def wrap_def)
next
  case (Inr names)
  let ?c = "rev (sort (filter dateRegex names))"
  have "fst (firstNotInvoiced G docId ?c (s\<lparr>calls := calls s @ [GetWorksheets docId]\<rparr>))
      = fst (firstNotInvoiced G docId ?c (t\<lparr>calls := calls t @ [GetWorksheets docId]\<rparr>))"
    by (rule firstNotInvoiced_cong) (simp add: assms(2))
  with Inr assms(1) show ?thesis
    by (simp add: getCurrentSheet_def await_def query_def wrap_def)
qed







lemma framed_throw: "framed new docId (throw e)"
  by (simp add: framed_def throw_def frame_refl)


























subsection \<open>Timezone fallback\<close>

text \<open>
  Claim C9. For every date and every timezone name: when the timezone is absent, empty or
  \<^verbatim>\<open>UTC\<close>, and when the conversion of the runtime raises for the name (an invalid or
  unsupported zone), \<^verbatim>\<open>getDateInTimezone\<close> returns the instant it was given; it never
  fails.
\<close>

theorem getDateInTimezone_fallback:
  "(timezone = None \<or> timezone = Some [] \<or> timezone = Some ''UTC''
      \<or> (\<exists>name. timezone = Some name \<and> zoned name instant = None))
   \<longrightarrow> getDateInTimezone zoned instant timezone = instant"
  by (auto simp: getDateInTimezone_def truthy_def)

theorem getDateInTimezone_fallback_witness:
  "getDateInTimezone (\<lambda>name d. if name = ''America/New_York'' then Some (d - 18000000) else None)
     1735726530000 (Some ''Mars/Olympus_Mons'') = 1735726530000
   \<and> getDateInTimezone (\<lambda>name d. if name = ''America/New_York'' then Some (d - 18000000) else None)
     1735726530000 (Some ''America/New_York'') = 1735708530000"
  using getDateInTimezone_fallback
    [of "Some ''Mars/Olympus_Mons''"
        "\<lambda>name d. if name = ''America/New_York'' then Some (d - 18000000) else None" 1735726530000]
  by (simp add: getDateInTimezone_def truthy_def)

end
